theory Spec2Isabelle
  imports Main "HOL-Library.Multiset"
begin

section \<open>Data model of gormdb2struct\<close>

text \<open>
  Go strings are byte sequences, modelled as \<open>string\<close>. A Go \<open>map[string]T\<close> is a
  partial function; a nil map reads like the empty one, and \<open>main\<close> replaces every nil
  override map by an empty one before the first write, so both are \<open>Map.empty\<close> here.
  A \<open>*[]string\<close> that may be nil is a \<open>string list option\<close>.
\<close>

type_synonym DatabaseDialect = string

definition POSTGRESQL :: DatabaseDialect where
  "POSTGRESQL = ''postgresql''"

definition SQLITE :: DatabaseDialect where
  "SQLITE = ''sqlite''"

record ExtraField =
  StructPropName :: string
  StructPropType :: string
  FkStructPropName :: string
  RefStructPropName :: string
  HasMany :: bool
  Pointer :: bool

record ConversionConfig =
  DatabaseDialect :: DatabaseDialect
  OutPath :: string
  OutPackagePath :: string
  ImportPackagePaths :: "string list"
  Tables :: "string list option"
  MaterializedViews :: "string list option"
  JsonTagOverridesByTable :: "string \<rightharpoonup> (string \<rightharpoonup> string)"
  ExtraFields :: "string \<rightharpoonup> ExtraField list"
  TypeMap :: "string \<rightharpoonup> string"
  DomainTypeMap :: "string \<rightharpoonup> string"
  CleanUp :: bool
  GenerateDbInit :: bool
  IncludeAutoMigrate :: bool
  DbHost :: string
  DbPort :: int
  DbName :: string
  DbUser :: string
  DbPassword :: string
  DbSSLMode :: bool
  Sqlitedbpath :: string

text \<open>
  The generator library's field and model values, with the components this program reads
  or writes. \<open>field.Tag\<close> is a \<open>map[string]string\<close>, \<open>field.GormTag\<close> a
  \<open>map[string][]string\<close>; their \<open>Set\<close> stores under the key.
\<close>

datatype RelationshipType = field_HasOne | field_HasMany | field_BelongsTo | field_Many2Many

record Relation =
  relationship :: RelationshipType
  fieldName :: string
  fieldType :: string

record Field =
  Name :: string
  Type :: string
  ColumnName :: string
  Tag :: "string \<rightharpoonup> string"
  GORMTag :: "string \<rightharpoonup> string list"
  Relation :: "Relation option"

record Model =
  ModelStructName :: string
  TableName :: string
  FileName :: string
  Fields :: "Field list"

section \<open>Relation field synthesis (\<open>genRelationField\<close>)\<close>

text \<open>
  \<open>strings.LastIndex(s, substr)\<close>: the index of the last instance of \<open>substr\<close> in
  \<open>s\<close>, or -1. \<open>lastIndexFrom\<close> scans the positions of \<open>s\<close> from the left and
  keeps the rightmost match.
\<close>

fun lastIndexFrom :: "string \<Rightarrow> string \<Rightarrow> nat option" where
  "lastIndexFrom [] substr = (if substr = [] then Some 0 else None)"
| "lastIndexFrom (c # cs) substr =
     (case lastIndexFrom cs substr of
        Some i \<Rightarrow> Some (Suc i)
      | None \<Rightarrow> if take (length substr) (c # cs) = substr then Some 0 else None)"

definition strings_LastIndex :: "string \<Rightarrow> string \<Rightarrow> int" where
  "strings_LastIndex s substr =
     (case lastIndexFrom s substr of None \<Rightarrow> - 1 | Some i \<Rightarrow> int i)"

text \<open>Lines 204-207: the base type is what follows the last dot, when there is a dot.\<close>

definition baseTypeName :: "string \<Rightarrow> string" where
  "baseTypeName structPropType =
     (let lastDotIndex = strings_LastIndex structPropType ''.''
      in if lastDotIndex \<noteq> - 1
         then drop (nat (lastDotIndex + 1)) structPropType
         else structPropType)"

text \<open>Lines 208-213: the pointer mark, then the slice mark.\<close>

definition baseTypeOf :: "ExtraField \<Rightarrow> string" where
  "baseTypeOf ef =
     (let baseType = baseTypeName (StructPropType ef);
          baseType = (if Pointer ef then ''*'' @ baseType else baseType);
          baseType = (if HasMany ef then ''[]'' @ baseType else baseType)
      in baseType)"

text \<open>
  \<open>genRelationField\<close> writes through the field pointer it is given; the model returns
  the field written. \<open>toLowerCamel\<close> stands for \<open>strcase.ToLowerCamel\<close> of the
  external strcase library.
\<close>

definition genRelationField :: "(string \<Rightarrow> string) \<Rightarrow> ExtraField \<Rightarrow> Field \<Rightarrow> Field" where
  "genRelationField toLowerCamel ef fld =
     fld\<lparr> Name := StructPropName ef,
          Type := baseTypeOf ef,
          Tag := [''json'' \<mapsto> toLowerCamel (StructPropName ef)],
          GORMTag := [''foreignKey'' \<mapsto> [FkStructPropName ef],
                      ''references'' \<mapsto> [RefStructPropName ef]],
          Relation := Some \<lparr> relationship = (if HasMany ef then field_HasMany else field_HasOne),
                              fieldName = StructPropName ef,
                              fieldType = StructPropType ef \<rparr> \<rparr>"

text \<open>\<open>gen.FieldNew("", "", nil)\<close> applied to nil: a fresh field with empty name and type.\<close>

definition FieldNew :: "string \<Rightarrow> string \<Rightarrow> (string \<rightharpoonup> string) \<Rightarrow> Field" where
  "FieldNew fName fType fTag =
     \<lparr> Name = fName, Type = fType, ColumnName = '''', Tag = fTag,
       GORMTag = Map.empty, Relation = None \<rparr>"

section \<open>Type resolution (\<open>postgresToGorm\<close>, lines 106-124)\<close>

text \<open>\<open>pgtypes.PgTypeMap\<close>: the built-in PostgreSQL type mapping, entry by entry.\<close>

definition PgTypeMap_entries :: "(string \<times> string) list" where
  "PgTypeMap_entries =
    [(''text[]'', ''pgtypes.StringArray''),
     (''varchar[]'', ''pgtypes.StringArray''),
     (''integer[]'', ''pgtypes.Int32Array''),
     (''int4[]'', ''pgtypes.Int32Array''),
     (''int8[]'', ''pgtypes.Int64Array''),
     (''bigint[]'', ''pgtypes.Int64Array''),
     (''bool[]'', ''pgtypes.BoolArray''),
     (''boolean[]'', ''pgtypes.BoolArray''),
     (''uuid[]'', ''pgtypes.UUIDArray''),
     (''float8[]'', ''pgtypes.Float64Array''),
     (''double precision[]'', ''pgtypes.Float64Array''),
     (''timestamptz[]'', ''pgtypes.TimeArray''),
     (''timestamp[]'', ''pgtypes.TimeArray''),
     (''timestamp with time zone[]'', ''pgtypes.TimeArray''),
     (''timestamp without time zone[]'', ''pgtypes.TimeArray''),
     (''interval'', ''pgtypes.Duration''),
     (''interval[]'', ''pgtypes.DurationArray''),
     (''bool'', ''bool''),
     (''int2'', ''int16''),
     (''int4'', ''int32''),
     (''int8'', ''int64''),
     (''float4'', ''float32''),
     (''float8'', ''float64''),
     (''numeric'', ''string''),
     (''text'', ''string''),
     (''varchar'', ''string''),
     (''bpchar'', ''string''),
     (''char'', ''string''),
     (''name'', ''string''),
     (''bytea'', ''[]byte''),
     (''uuid'', ''uuid.UUID''),
     (''json'', ''json.RawMessage''),
     (''jsonb'', ''json.RawMessage''),
     (''xml'', ''string''),
     (''date'', ''time.Time''),
     (''timestamp'', ''time.Time''),
     (''timestamptz'', ''time.Time''),
     (''time'', ''string''),
     (''timetz'', ''string''),
     (''inet'', ''net.IPNet''),
     (''cidr'', ''net.IPNet''),
     (''macaddr'', ''net.HardwareAddr''),
     (''macaddr8'', ''net.HardwareAddr''),
     (''bit'', ''string''),
     (''varbit'', ''string''),
     (''tsvector'', ''string''),
     (''tsquery'', ''string''),
     (''oid'', ''uint32''),
     (''regclass'', ''uint32''),
     (''regproc'', ''uint32''),
     (''regprocedure'', ''uint32''),
     (''regtype'', ''uint32''),
     (''regrole'', ''uint32''),
     (''regnamespace'', ''uint32''),
     (''regconfig'', ''uint32''),
     (''regdictionary'', ''uint32''),
     (''pg_lsn'', ''string''),
     (''txid_snapshot'', ''string''),
     (''point'', ''string''),
     (''line'', ''string''),
     (''lseg'', ''string''),
     (''box'', ''string''),
     (''path'', ''string''),
     (''polygon'', ''string''),
     (''circle'', ''string''),
     (''int4range'', ''string''),
     (''int8range'', ''string''),
     (''numrange'', ''string''),
     (''tsrange'', ''string''),
     (''tstzrange'', ''string''),
     (''daterange'', ''string''),
     (''int4multirange'', ''string''),
     (''int8multirange'', ''string''),
     (''nummultirange'', ''string''),
     (''tsmultirange'', ''string''),
     (''tstzmultirange'', ''string''),
     (''datemultirange'', ''string''),
     (''money'', ''string'')]"

definition PgTypeMap :: "string \<rightharpoonup> string" where
  "PgTypeMap = map_of PgTypeMap_entries"

text \<open>
  What the generator hands to a type hook: \<open>gorm.ColumnType\<close>, of which the program
  calls \<open>ColumnType()\<close> (a string and an ok flag). The generator itself selects the
  hook by \<open>DatabaseTypeName()\<close>.
\<close>

record ColumnMeta =
  DatabaseTypeName :: string
  ColumnType :: "string option"

text \<open>The closure \<open>f(def)\<close> of lines 107-119.\<close>

definition typeHook :: "ConversionConfig \<Rightarrow> string \<Rightarrow> ColumnMeta \<Rightarrow> string" where
  "typeHook cfg def columnType =
     (case ColumnType columnType of
        Some colType \<Rightarrow>
          (case DomainTypeMap cfg colType of
             Some domain \<Rightarrow> domain
           | None \<Rightarrow> (case TypeMap cfg colType of Some pt \<Rightarrow> pt | None \<Rightarrow> def))
      | None \<Rightarrow> def)"

text \<open>Lines 120-122: one hook per entry of \<open>PgTypeMap\<close>, and for no other type.\<close>

definition dtMaps :: "ConversionConfig \<Rightarrow> (string \<rightharpoonup> (ColumnMeta \<Rightarrow> string))" where
  "dtMaps cfg =
     fold (\<lambda>(pgTypeStr, goTypeStr) m. m(pgTypeStr \<mapsto> typeHook cfg goTypeStr))
       PgTypeMap_entries Map.empty"

text \<open>
  The generator's side of \<open>WithDataTypeMap\<close>, as its contract gives it: a hook is
  registered per raw database type and called with the column's metadata; without a hook
  for the column's type name the generator's own inference \<open>generatorDefault\<close> decides.
\<close>

definition GetDataType ::
  "(string \<rightharpoonup> (ColumnMeta \<Rightarrow> string)) \<Rightarrow> (ColumnMeta \<Rightarrow> string) \<Rightarrow> ColumnMeta \<Rightarrow> string" where
  "GetDataType dataTypeMap generatorDefault c =
     (case dataTypeMap (DatabaseTypeName c) of
        Some mapping \<Rightarrow> mapping c
      | None \<Rightarrow> generatorDefault c)"

definition resolvedType ::
  "ConversionConfig \<Rightarrow> (ColumnMeta \<Rightarrow> string) \<Rightarrow> ColumnMeta \<Rightarrow> string" where
  "resolvedType cfg generatorDefault c = GetDataType (dtMaps cfg) generatorDefault c"

text \<open>
  The precedence as the specification words it, over one column type string: the domain
  map, then the type map, then the built-in mapping, then the generator's inference.
\<close>

definition spec_resolvedType ::
  "ConversionConfig \<Rightarrow> (ColumnMeta \<Rightarrow> string) \<Rightarrow> ColumnMeta \<Rightarrow> string \<Rightarrow> string" where
  "spec_resolvedType cfg generatorDefault c colType =
     (case DomainTypeMap cfg colType of
        Some d \<Rightarrow> d
      | None \<Rightarrow>
          (case TypeMap cfg colType of
             Some t \<Rightarrow> t
           | None \<Rightarrow>
               (case PgTypeMap colType of
                  Some b \<Rightarrow> b
                | None \<Rightarrow> generatorDefault c)))"

section \<open>Startup: merging the defaults and validating (\<open>main\<close>, lines 132-200)\<close>

text \<open>The package-level \<open>conversionConfig\<close>: its \<open>DomainTypeMap\<close> is nil.\<close>

definition conversionConfig_TypeMap :: "(string \<times> string) list" where
  "conversionConfig_TypeMap =
     [(''jsonb'', ''datatypes.JSONMap''), (''uuid'', ''datatypes.UUID'')]"

definition conversionConfig_DomainTypeMap :: "(string \<times> string) list" where
  "conversionConfig_DomainTypeMap = []"

definition conversionConfig_ImportPackagePaths :: "string list" where
  "conversionConfig_ImportPackagePaths = [''github.com/dan-sherwin/gormdb2struct/pgtypes'']"

text \<open>
  Lines 147-151 and 153-157: \<open>range\<close> over the default map, in whatever order the
  runtime enumerates it (the list \<open>defaults\<close>), storing a pair only when the key is
  absent.
\<close>

definition mergeDefaults :: "(string \<times> string) list \<Rightarrow> (string \<rightharpoonup> string) \<Rightarrow> (string \<rightharpoonup> string)" where
  "mergeDefaults defaults m =
     fold (\<lambda>(k, v) m. if m k = None then m(k \<mapsto> v) else m) defaults m"

text \<open>
  Lines 159-167: the set \<open>existing\<close> is taken from the configured paths once; every
  default path outside it is appended.
\<close>

definition mergeImportPackagePaths :: "string list \<Rightarrow> string list \<Rightarrow> string list" where
  "mergeImportPackagePaths defaults paths =
     fold (\<lambda>p acc. if p \<in> set paths then acc else acc @ [p]) defaults paths"

definition mergeConfig :: "ConversionConfig \<Rightarrow> ConversionConfig" where
  "mergeConfig cfg =
     cfg\<lparr> TypeMap := mergeDefaults conversionConfig_TypeMap (TypeMap cfg),
          DomainTypeMap := mergeDefaults conversionConfig_DomainTypeMap (DomainTypeMap cfg),
          ImportPackagePaths :=
            mergeImportPackagePaths conversionConfig_ImportPackagePaths (ImportPackagePaths cfg) \<rparr>"

text \<open>
  \<open>strings.TrimSpace\<close> removes leading and trailing white space as Unicode defines it.
  On the UTF-8 bytes of a Go string these are the six ASCII characters and the encodings
  of U+0085, U+00A0, U+1680, U+2000 to U+200A, U+2028, U+2029, U+202F, U+205F and U+3000.
\<close>

definition spaceRunes :: "string list" where
  "spaceRunes =
     [[CHR 0x09], [CHR 0x0A], [CHR 0x0B], [CHR 0x0C], [CHR 0x0D], [CHR 0x20],
      [CHR 0xC2, CHR 0x85], [CHR 0xC2, CHR 0xA0],
      [CHR 0xE1, CHR 0x9A, CHR 0x80],
      [CHR 0xE2, CHR 0x80, CHR 0x80], [CHR 0xE2, CHR 0x80, CHR 0x81],
      [CHR 0xE2, CHR 0x80, CHR 0x82], [CHR 0xE2, CHR 0x80, CHR 0x83],
      [CHR 0xE2, CHR 0x80, CHR 0x84], [CHR 0xE2, CHR 0x80, CHR 0x85],
      [CHR 0xE2, CHR 0x80, CHR 0x86], [CHR 0xE2, CHR 0x80, CHR 0x87],
      [CHR 0xE2, CHR 0x80, CHR 0x88], [CHR 0xE2, CHR 0x80, CHR 0x89],
      [CHR 0xE2, CHR 0x80, CHR 0x8A],
      [CHR 0xE2, CHR 0x80, CHR 0xA8], [CHR 0xE2, CHR 0x80, CHR 0xA9],
      [CHR 0xE2, CHR 0x80, CHR 0xAF], [CHR 0xE2, CHR 0x81, CHR 0x9F],
      [CHR 0xE3, CHR 0x80, CHR 0x80]]"

text \<open>The byte length of the white-space rune that \<open>s\<close> starts with, 0 when none does.\<close>

definition leadingRune :: "string list \<Rightarrow> string \<Rightarrow> nat" where
  "leadingRune runes s =
     (case find (\<lambda>r. r \<noteq> [] \<and> take (length r) s = r) runes of
        None \<Rightarrow> 0
      | Some r \<Rightarrow> length r)"

function trimLeading :: "string list \<Rightarrow> string \<Rightarrow> string" where
  "trimLeading runes s =
     (if leadingRune runes s = 0 then s else trimLeading runes (drop (leadingRune runes s) s))"
  by pat_completeness auto
termination
proof (relation "measure (\<lambda>(runes, s). length s)")
  show "wf (measure (\<lambda>(runes, s). length s))" by simp
next
  fix runes :: "string list" and s :: string
  assume pos: "leadingRune runes s \<noteq> 0"
  then obtain r where r: "find (\<lambda>r. r \<noteq> [] \<and> take (length r) s = r) runes = Some r"
    by (auto simp: leadingRune_def split: option.splits)
  then have "r \<noteq> []" "take (length r) s = r"
    by (auto simp: find_Some_iff)
  then have "s \<noteq> []" by auto
  with pos show "((runes, drop (leadingRune runes s) s), (runes, s)) \<in> measure (\<lambda>(runes, s). length s)"
    by simp
qed

declare trimLeading.simps [simp del]

definition strings_TrimSpace :: "string \<Rightarrow> string" where
  "strings_TrimSpace s =
     rev (trimLeading (map rev spaceRunes) (rev (trimLeading spaceRunes s)))"

text \<open>
  \<open>usage\<close> writes to standard error and ends the process with \<open>os.Exit(exitCode)\<close>;
  \<open>prog\<close> is the base name of \<open>os.Args[0]\<close>.
\<close>

record Exit =
  exitCode :: int
  stderr :: string

definition nl :: string where
  "nl = [CHR 0x0A]"

definition quote :: string where
  "quote = [CHR 0x27]"

definition usageText :: "string \<Rightarrow> string" where
  "usageText prog =
     ''Usage:'' @ nl @ ''  '' @ prog @ '' <config.toml>'' @ nl
     @ ''  '' @ prog @ '' -generateConfigSample'' @ nl
     @ ''  '' @ prog @ '' -version | --version'' @ nl @ nl
     @ ''Description:'' @ nl
     @ ''  Generates GORM models and optional DB initializer code from an existing database.'' @ nl
     @ ''  Provide a TOML configuration file describing the database and generation options.'' @ nl
     @ ''  Use -generateConfigSample to write a sample configuration file named ''
     @ quote @ ''gormdb2struct-sample.toml'' @ quote @ '' in the current directory.'' @ nl"

definition usage :: "string \<Rightarrow> int \<Rightarrow> string \<Rightarrow> Exit" where
  "usage prog code errMsg =
     \<lparr> exitCode = code,
       stderr = (if strings_TrimSpace errMsg \<noteq> ''''
                 then ''Error: '' @ errMsg @ nl @ nl else '''') @ usageText prog \<rparr>"

definition dialectMessage :: string where
  "dialectMessage =
     ''configuration error: DatabaseDialect must be '' @ quote @ POSTGRESQL @ quote
     @ '' or '' @ quote @ SQLITE @ quote"

text \<open>Lines 169-191. A zero \<open>DbPort\<close> becomes 5432 here already, for postgresql.\<close>

definition validateConfig :: "string \<Rightarrow> ConversionConfig \<Rightarrow> Exit + ConversionConfig" where
  "validateConfig prog cfg =
     (if strings_TrimSpace (OutPath cfg) = ''''
      then Inl (usage prog 2 ''configuration error: OutPath is required'')
      else if DatabaseDialect cfg \<noteq> POSTGRESQL \<and> DatabaseDialect cfg \<noteq> SQLITE
      then Inl (usage prog 2 dialectMessage)
      else
        let cfg = (if DatabaseDialect cfg = POSTGRESQL \<and> DbPort cfg = 0
                   then cfg\<lparr> DbPort := 5432 \<rparr> else cfg)
        in if DatabaseDialect cfg = POSTGRESQL \<and> strings_TrimSpace (DbHost cfg) = ''''
           then Inl (usage prog 2 ''configuration error: DbHost is required for postgresql dialect'')
           else if DatabaseDialect cfg = POSTGRESQL \<and> strings_TrimSpace (DbName cfg) = ''''
           then Inl (usage prog 2 ''configuration error: DbName is required for postgresql dialect'')
           else if DatabaseDialect cfg = SQLITE \<and> strings_TrimSpace (Sqlitedbpath cfg) = ''''
           then Inl (usage prog 2 ''configuration error: Sqlitedbpath is required for sqlite dialect'')
           else Inr cfg)"

text \<open>
  Lines 193-200: the dialect decides which converter runs. All database and file work
  of a run happens inside the converter that \<open>main\<close> calls last.
\<close>

datatype Dispatch = PostgresToGorm ConversionConfig | SqliteToGorm ConversionConfig

definition main_config :: "string \<Rightarrow> ConversionConfig \<Rightarrow> Exit + Dispatch" where
  "main_config prog cfg =
     (case validateConfig prog (mergeConfig cfg) of
        Inl e \<Rightarrow> Inl e
      | Inr cfg \<Rightarrow>
          if DatabaseDialect cfg = POSTGRESQL then Inr (PostgresToGorm cfg)
          else if DatabaseDialect cfg = SQLITE then Inr (SqliteToGorm cfg)
          else Inl (usage prog 2
                 (''unknown database dialect: '' @ DatabaseDialect cfg @ '' (expected ''
                  @ quote @ POSTGRESQL @ quote @ '' or '' @ quote @ SQLITE @ quote @ '')'')))"

section \<open>Connection parameters (\<open>postgresToGorm\<close>, lines 22-57)\<close>

text \<open>\<open>os.Getenv\<close>: the value of the variable, empty when it is not set.\<close>

definition os_Getenv :: "(string \<rightharpoonup> string) \<Rightarrow> string \<Rightarrow> string" where
  "os_Getenv env key = (case env key of None \<Rightarrow> '''' | Some v \<Rightarrow> v)"

text \<open>
  \<open>strconv.Atoi\<close>: an optional sign and at least one decimal digit, nothing else, and
  a value that fits Go's 64-bit \<open>int\<close>; otherwise an error (\<open>None\<close>).
\<close>

definition isDigit :: "char \<Rightarrow> bool" where
  "isDigit c = (48 \<le> (of_char c :: nat) \<and> (of_char c :: nat) \<le> 57)"

definition digitsValue :: "string \<Rightarrow> int" where
  "digitsValue ds = fold (\<lambda>c acc. 10 * acc + (int (of_char c) - 48)) ds 0"

definition strconv_Atoi :: "string \<Rightarrow> int option" where
  "strconv_Atoi s =
     (let neg = (s \<noteq> [] \<and> hd s = CHR ''-'');
          ds = (if s \<noteq> [] \<and> (hd s = CHR ''-'' \<or> hd s = CHR ''+'') then tl s else s)
      in if ds = [] \<or> \<not> list_all isDigit ds then None
         else let v = (if neg then - digitsValue ds else digitsValue ds)
              in if v < - (2 ^ 63) \<or> 2 ^ 63 - 1 < v then None else Some v)"

text \<open>\<open>log.Fatal\<close> prints and calls \<open>os.Exit(1)\<close>; the value says which call it was.\<close>

datatype Fatal =
  AtoiFailed | NoDatabaseName | OpenFailed | PingFailed | CatalogQueryFailed
  | CreateViewFailed | DbInitFailed

text \<open>Lines 22-49, statement by statement; \<open>env\<close> is the process environment.\<close>

definition fillHost :: "(string \<rightharpoonup> string) \<Rightarrow> ConversionConfig \<Rightarrow> ConversionConfig" where
  "fillHost env cfg =
     (if DbHost cfg = ''''
      then (let cfg = cfg\<lparr> DbHost := os_Getenv env ''DB_HOST'' \<rparr>
            in if DbHost cfg = '''' then cfg\<lparr> DbHost := ''localhost'' \<rparr> else cfg)
      else cfg)"

definition fillPort :: "(string \<rightharpoonup> string) \<Rightarrow> ConversionConfig \<Rightarrow> Fatal + ConversionConfig" where
  "fillPort env cfg =
     (if DbPort cfg = 0
      then (let cfg = cfg\<lparr> DbPort := 5432 \<rparr>;
                port = os_Getenv env ''DB_PORT''
            in if port \<noteq> ''''
               then (case strconv_Atoi port of
                       None \<Rightarrow> Inl AtoiFailed
                     | Some n \<Rightarrow> Inr (cfg\<lparr> DbPort := n \<rparr>))
               else Inr cfg)
      else Inr cfg)"

definition fillName :: "(string \<rightharpoonup> string) \<Rightarrow> ConversionConfig \<Rightarrow> Fatal + ConversionConfig" where
  "fillName env cfg =
     (if DbName cfg = ''''
      then (let cfg = cfg\<lparr> DbName := os_Getenv env ''DB_NAME'' \<rparr>
            in if DbName cfg = '''' then Inl NoDatabaseName else Inr cfg)
      else Inr cfg)"

definition fillCredentials :: "(string \<rightharpoonup> string) \<Rightarrow> ConversionConfig \<Rightarrow> ConversionConfig" where
  "fillCredentials env cfg =
     (let cfg = (if DbUser cfg = '''' then cfg\<lparr> DbUser := os_Getenv env ''DB_USER'' \<rparr> else cfg);
          cfg = (if DbPassword cfg = ''''
                 then cfg\<lparr> DbPassword := os_Getenv env ''DB_PASSWORD'' \<rparr> else cfg)
      in cfg)"

definition fillConnection :: "(string \<rightharpoonup> string) \<Rightarrow> ConversionConfig \<Rightarrow> Fatal + ConversionConfig" where
  "fillConnection env cfg =
     (case fillPort env (fillHost env cfg) of
        Inl f \<Rightarrow> Inl f
      | Inr cfg \<Rightarrow>
          (case fillName env cfg of
             Inl f \<Rightarrow> Inl f
           | Inr cfg \<Rightarrow> Inr (fillCredentials env cfg)))"

text \<open>Lines 50-57: the value from which \<open>utilities.DbDSN\<close> builds the DSN.\<close>

record DbDSNConfig =
  Server :: string
  Port :: int
  DatabaseName :: string
  User :: string
  Password :: string
  SSLMode :: bool

definition dsnConfig :: "ConversionConfig \<Rightarrow> DbDSNConfig" where
  "dsnConfig cfg =
     \<lparr> Server = DbHost cfg, Port = DbPort cfg, DatabaseName = DbName cfg,
       User = DbUser cfg, Password = DbPassword cfg, SSLMode = DbSSLMode cfg \<rparr>"

definition postgresDSN :: "(string \<rightharpoonup> string) \<Rightarrow> ConversionConfig \<Rightarrow> Fatal + DbDSNConfig" where
  "postgresDSN env cfg =
     (case fillConnection env cfg of Inl f \<Rightarrow> Inl f | Inr cfg \<Rightarrow> Inr (dsnConfig cfg))"

text \<open>
  The program from the decoded configuration to the point where the postgresql converter
  has its DSN: \<open>main\<close> first, then the head of \<open>postgresToGorm\<close>.
\<close>

datatype Startup =
  ConfigExit Exit | FatalExit Fatal | PostgresDSN DbDSNConfig | Sqlite ConversionConfig

definition startup :: "string \<Rightarrow> (string \<rightharpoonup> string) \<Rightarrow> ConversionConfig \<Rightarrow> Startup" where
  "startup prog env cfg =
     (case main_config prog cfg of
        Inl e \<Rightarrow> ConfigExit e
      | Inr (PostgresToGorm cfg) \<Rightarrow>
          (case postgresDSN env cfg of Inl f \<Rightarrow> FatalExit f | Inr d \<Rightarrow> PostgresDSN d)
      | Inr (SqliteToGorm cfg) \<Rightarrow> Sqlite cfg)"

section \<open>Model assembly (\<open>postgresToGorm\<close>, lines 84-190)\<close>

text \<open>
  The database as far as the run changes it: the plain views it creates and drops. The
  trace records every statement sent, with its success, and every reflection. The three
  statements are \<open>drop view if exists v\<close>, \<open>create view v as select * from src\<close>
  and \<open>drop view v\<close>.
\<close>

datatype Stmt = DropViewIfExists string | CreateViewAs string string | DropView string

datatype Event = Queried Stmt bool | Reflected string

record World =
  views :: "string set"
  trace :: "Event list"

text \<open>
  What the run does not decide itself: the strcase and naming functions, the generator's
  reflection (\<open>None\<close> when it panics), whether the database rejects a statement in a
  given state, the catalog's answers (\<open>None\<close> on a query error), whether
  \<open>ApplyBasic\<close> and \<open>Execute\<close> go through (they panic otherwise) and whether the
  initialisation file can be written.
\<close>

record Externals =
  toLowerCamel :: "string \<Rightarrow> string"
  SchemaName :: "string \<Rightarrow> string"
  GenerateModel :: "World \<Rightarrow> string \<Rightarrow> Model option"
  GenerateModelAs :: "World \<Rightarrow> string \<Rightarrow> string \<Rightarrow> Model option"
  queryFails :: "World \<Rightarrow> Stmt \<Rightarrow> bool"
  catalogTables :: "string list option"
  catalogMatViews :: "string list option"
  ApplyAndExecute :: "Model list \<Rightarrow> bool"
  WriteDbInit :: "string list \<Rightarrow> bool"

definition effect :: "Stmt \<Rightarrow> string set \<Rightarrow> string set" where
  "effect s vs =
     (case s of
        DropViewIfExists v \<Rightarrow> vs - {v}
      | CreateViewAs v src \<Rightarrow> insert v vs
      | DropView v \<Rightarrow> vs - {v})"

text \<open>\<open>sqldb.Query\<close>: the flag is \<open>err == nil\<close>.\<close>

definition sqldb_Query :: "Externals \<Rightarrow> World \<Rightarrow> Stmt \<Rightarrow> bool \<times> World" where
  "sqldb_Query x w s =
     (if queryFails x w s
      then (False, w\<lparr> trace := trace w @ [Queried s False] \<rparr>)
      else (True, \<lparr> views = effect s (views w), trace = trace w @ [Queried s True] \<rparr>))"

definition reflected :: "string \<Rightarrow> World \<Rightarrow> World" where
  "reflected name w = w\<lparr> trace := trace w @ [Reflected name] \<rparr>"

text \<open>Lines 129-136 and 160-167: one synthesized field appended per relation spec.\<close>

definition addExtraFields :: "Externals \<Rightarrow> ConversionConfig \<Rightarrow> string \<Rightarrow> Model \<Rightarrow> Model" where
  "addExtraFields x cfg tableName model =
     (case ExtraFields cfg tableName of
        Some efs \<Rightarrow>
          fold (\<lambda>ef model.
                  model\<lparr> Fields := Fields model
                    @ [genRelationField (toLowerCamel x) ef (FieldNew '''' '''' Map.empty)] \<rparr>)
            efs model
      | None \<Rightarrow> model)"

text \<open>
  Lines 139-143 and 172-176: the column name is looked up first, then the field name.
  \<open>Tag.Set\<close> stores into the field's tag map; every field in the loop has one, a
  reflected field from the generator and a synthesized field from \<open>genRelationField\<close>.
\<close>

definition overrideJsonTag :: "(string \<rightharpoonup> string) \<Rightarrow> Field \<Rightarrow> Field" where
  "overrideJsonTag jsonTagOverrides f =
     (case jsonTagOverrides (ColumnName f) of
        Some jsonTag \<Rightarrow> f\<lparr> Tag := (Tag f)(''json'' \<mapsto> jsonTag) \<rparr>
      | None \<Rightarrow>
          (case jsonTagOverrides (Name f) of
             Some jsonTag \<Rightarrow> f\<lparr> Tag := (Tag f)(''json'' \<mapsto> jsonTag) \<rparr>
           | None \<Rightarrow> f))"

definition applyJsonTagOverrides :: "ConversionConfig \<Rightarrow> string \<Rightarrow> Model \<Rightarrow> Model" where
  "applyJsonTagOverrides cfg tableName model =
     (case JsonTagOverridesByTable cfg tableName of
        Some jsonTagOverrides \<Rightarrow>
          model\<lparr> Fields := map (overrideJsonTag jsonTagOverrides) (Fields model) \<rparr>
      | None \<Rightarrow> model)"

text \<open>
  The state of a run: the database, the calls deferred so far (the latest first, the
  order in which they run) and the models collected by name.
\<close>

record Run =
  world :: World
  deferred :: "Stmt list"
  modelsMap :: "string \<rightharpoonup> Model"

datatype Ending = Completed | LogFatal Fatal | Panic

text \<open>Lines 127-147.\<close>

fun tablesLoop :: "Externals \<Rightarrow> ConversionConfig \<Rightarrow> string list \<Rightarrow> Run \<Rightarrow> Ending \<times> Run" where
  "tablesLoop x cfg [] run = (Completed, run)"
| "tablesLoop x cfg (tableName # rest) run =
     (case GenerateModel x (world run) tableName of
        None \<Rightarrow> (Panic, run\<lparr> world := reflected tableName (world run) \<rparr>)
      | Some model \<Rightarrow>
          tablesLoop x cfg rest
            (run\<lparr> world := reflected tableName (world run),
                  modelsMap := (modelsMap run)
                    (tableName \<mapsto> applyJsonTagOverrides cfg tableName
                                    (addExtraFields x cfg tableName model)) \<rparr>))"

text \<open>
  Lines 150-155: the stale temporary view is dropped with the result ignored, then the
  temporary view is created; the flag is the success of the creation.
\<close>

definition createTempView :: "Externals \<Rightarrow> World \<Rightarrow> string \<Rightarrow> bool \<times> World" where
  "createTempView x w viewName =
     (let tmpViewName = viewName @ ''_temp'';
          w = snd (sqldb_Query x w (DropViewIfExists tmpViewName))
      in sqldb_Query x w (CreateViewAs tmpViewName viewName))"

text \<open>Lines 157-179: the model of a view, reflected from its temporary view.\<close>

definition viewModel :: "Externals \<Rightarrow> ConversionConfig \<Rightarrow> string \<Rightarrow> Model \<Rightarrow> Model" where
  "viewModel x cfg viewName model =
     applyJsonTagOverrides cfg viewName
       ((addExtraFields x cfg viewName model)\<lparr> FileName := viewName, TableName := viewName \<rparr>)"

text \<open>Lines 149-180. A failed creation is \<open>log.Fatal\<close>; otherwise the drop is deferred.\<close>

fun viewsLoop :: "Externals \<Rightarrow> ConversionConfig \<Rightarrow> string list \<Rightarrow> Run \<Rightarrow> Ending \<times> Run" where
  "viewsLoop x cfg [] run = (Completed, run)"
| "viewsLoop x cfg (viewName # rest) run =
     (if \<not> fst (createTempView x (world run) viewName)
      then (LogFatal CreateViewFailed,
            run\<lparr> world := snd (createTempView x (world run) viewName) \<rparr>)
      else
        (case GenerateModelAs x (snd (createTempView x (world run) viewName))
                (viewName @ ''_temp'') (SchemaName x viewName) of
           None \<Rightarrow>
             (Panic,
              run\<lparr> world := reflected (viewName @ ''_temp'')
                               (snd (createTempView x (world run) viewName)),
                    deferred := DropView (viewName @ ''_temp'') # deferred run \<rparr>)
         | Some model \<Rightarrow>
             viewsLoop x cfg rest
               (run\<lparr> world := reflected (viewName @ ''_temp'')
                                (snd (createTempView x (world run) viewName)),
                     deferred := DropView (viewName @ ''_temp'') # deferred run,
                     modelsMap := (modelsMap run)(viewName \<mapsto> viewModel x cfg viewName model) \<rparr>)))"

text \<open>
  The deferred drops run when \<open>postgresToGorm\<close> returns or panics, the latest first,
  their results unread. \<open>log.Fatal\<close> ends the process through \<open>os.Exit\<close>, which runs
  no deferred call.
\<close>

definition runDeferred :: "Externals \<Rightarrow> Stmt list \<Rightarrow> World \<Rightarrow> World" where
  "runDeferred x stmts w = fold (\<lambda>s w. snd (sqldb_Query x w s)) stmts w"

definition leave :: "Externals \<Rightarrow> Ending \<Rightarrow> Run \<Rightarrow> World" where
  "leave x e run =
     (case e of
        LogFatal f \<Rightarrow> world run
      | Completed \<Rightarrow> runDeferred x (deferred run) (world run)
      | Panic \<Rightarrow> runDeferred x (deferred run) (world run))"

text \<open>
  \<open>range\<close> over a Go map visits each key once, in an order the runtime picks anew for
  every loop. The order is a parameter: a list that enumerates the map's keys.
\<close>

definition enumerates :: "string list \<Rightarrow> (string \<rightharpoonup> 'a) \<Rightarrow> bool" where
  "enumerates order m = (distinct order \<and> set order = dom m)"

definition rangeValues :: "string list \<Rightarrow> (string \<rightharpoonup> 'a) \<Rightarrow> 'a list" where
  "rangeValues order m = List.map_filter m order"

definition rangeKeys :: "string list \<Rightarrow> (string \<rightharpoonup> 'a) \<Rightarrow> string list" where
  "rangeKeys order m = filter (\<lambda>k. m k \<noteq> None) order"

text \<open>The generator's \<open>Data\<close> after \<open>ApplyBasic\<close>: one entry per model struct name.\<close>

definition generatorData :: "Model list \<Rightarrow> (string \<rightharpoonup> Model)" where
  "generatorData models =
     fold (\<lambda>model d. if d (ModelStructName model) = None
                      then d(ModelStructName model \<mapsto> model) else d) models Map.empty"

record Outcome =
  ending :: Ending
  finalWorld :: World
  handedModels :: "Model list"
  modelStructNames :: "string list"

definition stop :: "Externals \<Rightarrow> Ending \<Rightarrow> Run \<Rightarrow> Model list \<Rightarrow> string list \<Rightarrow> Outcome" where
  "stop x e run models names =
     \<lparr> ending = e, finalWorld = leave x e run, handedModels = models,
       modelStructNames = names \<rparr>"

text \<open>
  Lines 182-190 and \<open>generatePostgresDbInit\<close>, lines 200-203 and 241: the models are
  collected from the map, handed to the generator, and the struct names for the
  initialisation file are collected from the generator's data.
\<close>

definition handOver ::
  "Externals \<Rightarrow> ConversionConfig \<Rightarrow> string list \<Rightarrow> string list \<Rightarrow> Run \<Rightarrow> Outcome" where
  "handOver x cfg modelsOrder dataOrder run =
     (let models = rangeValues modelsOrder (modelsMap run)
      in if \<not> ApplyAndExecute x models then stop x Panic run models []
         else if GenerateDbInit cfg
         then (let names = rangeKeys dataOrder (generatorData models)
               in if WriteDbInit x names then stop x Completed run models names
                  else stop x (LogFatal DbInitFailed) run models names)
         else stop x Completed run models [])"

text \<open>Lines 84-101: the configured lists, or else the catalog's.\<close>

definition tableNames :: "Externals \<Rightarrow> ConversionConfig \<Rightarrow> string list option" where
  "tableNames x cfg = (case Tables cfg of Some ts \<Rightarrow> Some ts | None \<Rightarrow> catalogTables x)"

definition materializedViewNames :: "Externals \<Rightarrow> ConversionConfig \<Rightarrow> string list option" where
  "materializedViewNames x cfg =
     (case MaterializedViews cfg of Some vs \<Rightarrow> Some vs | None \<Rightarrow> catalogMatViews x)"

definition collectModels :: "Externals \<Rightarrow> ConversionConfig \<Rightarrow> World \<Rightarrow> Ending \<times> Run" where
  "collectModels x cfg w =
     (let run = \<lparr> world = w, deferred = [], modelsMap = Map.empty \<rparr>
      in case tableNames x cfg of
           None \<Rightarrow> (LogFatal CatalogQueryFailed, run)
         | Some tables \<Rightarrow>
             (case materializedViewNames x cfg of
                None \<Rightarrow> (LogFatal CatalogQueryFailed, run)
              | Some materializedViews \<Rightarrow>
                  (if fst (tablesLoop x cfg tables run) \<noteq> Completed
                   then tablesLoop x cfg tables run
                   else viewsLoop x cfg materializedViews (snd (tablesLoop x cfg tables run)))))"

definition postgresToGorm_generate ::
  "Externals \<Rightarrow> ConversionConfig \<Rightarrow> string list \<Rightarrow> string list \<Rightarrow> World \<Rightarrow> Outcome" where
  "postgresToGorm_generate x cfg modelsOrder dataOrder w =
     (if fst (collectModels x cfg w) \<noteq> Completed
      then stop x (fst (collectModels x cfg w)) (snd (collectModels x cfg w)) [] []
      else handOver x cfg modelsOrder dataOrder (snd (collectModels x cfg w)))"

section \<open>The specification's wording, for comparison\<close>

text \<open>
  The substring after the last path separator of a fully-qualified type: what follows
  the last dot, read off from the end of the string.
\<close>

definition spec_localTypeName :: "string \<Rightarrow> string" where
  "spec_localTypeName s = rev (takeWhile (\<lambda>c. c \<noteq> CHR ''.'') (rev s))"

text \<open>
  A configuration error in the specification's sense: a required field is missing (empty
  after trimming) or the dialect is neither of the two.
\<close>

definition missingRequired :: "ConversionConfig \<Rightarrow> bool" where
  "missingRequired cfg =
     (strings_TrimSpace (OutPath cfg) = ''''
      \<or> (DatabaseDialect cfg \<noteq> POSTGRESQL \<and> DatabaseDialect cfg \<noteq> SQLITE)
      \<or> (DatabaseDialect cfg = POSTGRESQL
           \<and> (strings_TrimSpace (DbHost cfg) = '''' \<or> strings_TrimSpace (DbName cfg) = ''''))
      \<or> (DatabaseDialect cfg = SQLITE \<and> strings_TrimSpace (Sqlitedbpath cfg) = ''''))"

section \<open>Concrete inputs\<close>

text \<open>
  The configuration that \<open>sampleConfigTOML\<close> writes, as decoded: every commented-out
  entry is absent, so the table lists are nil and the four override maps are empty.
\<close>

definition sampleConfig :: ConversionConfig where
  "sampleConfig =
     \<lparr> DatabaseDialect = ''postgresql'',
       OutPath = ''./generated'',
       OutPackagePath = '''',
       ImportPackagePaths = [''github.com/dan-sherwin/gormdb2struct/pgtypes''],
       Tables = None,
       MaterializedViews = None,
       JsonTagOverridesByTable = Map.empty,
       ExtraFields = Map.empty,
       TypeMap = Map.empty,
       DomainTypeMap = Map.empty,
       CleanUp = True,
       GenerateDbInit = True,
       IncludeAutoMigrate = False,
       DbHost = ''localhost'',
       DbPort = 5432,
       DbName = ''my_database'',
       DbUser = ''my_user'',
       DbPassword = ''secret'',
       DbSSLMode = False,
       Sqlitedbpath = ''./schema.db'' \<rparr>"

text \<open>
  The sample configuration with a domain \<open>email_address\<close> mapped in both override maps,
  after the startup merge.
\<close>

definition emailConfig :: ConversionConfig where
  "emailConfig =
     mergeConfig (sampleConfig\<lparr> DomainTypeMap := [''email_address'' \<mapsto> ''models.Email''],
                               TypeMap := [''email_address'' \<mapsto> ''string''] \<rparr>)"

text \<open>
  Stand-ins for the parts outside the program: a generator that reflects every table as
  a model without columns and never fails, a database that accepts every statement, and
  identity naming functions.
\<close>

definition plainExternals :: Externals where
  "plainExternals =
     \<lparr> toLowerCamel = (\<lambda>s. s),
       SchemaName = (\<lambda>s. s),
       GenerateModel =
         (\<lambda>w t. Some \<lparr> ModelStructName = t, TableName = t, FileName = t, Fields = [] \<rparr>),
       GenerateModelAs =
         (\<lambda>w src tgt. Some \<lparr> ModelStructName = tgt, TableName = src, FileName = src,
                              Fields = [] \<rparr>),
       queryFails = (\<lambda>w s. False),
       catalogTables = None,
       catalogMatViews = None,
       ApplyAndExecute = (\<lambda>models. True),
       WriteDbInit = (\<lambda>names. True) \<rparr>"

definition emptyWorld :: World where
  "emptyWorld = \<lparr> views = {}, trace = [] \<rparr>"

text \<open>
  Tag overrides for a table \<open>t\<close>, one keyed by a column name and one by a field name,
  and a model of \<open>t\<close> with three reflected columns.
\<close>

definition tOverrides :: "string \<rightharpoonup> string" where
  "tOverrides = [''col_x'' \<mapsto> ''-'', ''Notes'' \<mapsto> ''memo'']"

definition overrideConfig :: ConversionConfig where
  "overrideConfig = sampleConfig\<lparr> JsonTagOverridesByTable := [''t'' \<mapsto> tOverrides] \<rparr>"

definition column :: "string \<Rightarrow> string \<Rightarrow> string \<Rightarrow> string \<Rightarrow> Field" where
  "column fName cName fType jsonTag =
     \<lparr> Name = fName, Type = fType, ColumnName = cName, Tag = [''json'' \<mapsto> jsonTag],
       GORMTag = [''column'' \<mapsto> [cName]], Relation = None \<rparr>"

definition tModel :: Model where
  "tModel =
     \<lparr> ModelStructName = ''T'', TableName = ''t'', FileName = ''t'',
       Fields = [column ''ColX'' ''col_x'' ''string'' ''colX'',
                 column ''Notes'' ''notes'' ''string'' ''notes'',
                 column ''ID'' ''id'' ''int64'' ''id''] \<rparr>"

text \<open>
  Two materialized views and no tables; two tables and no views. A database that
  rejects every drop and accepts every creation, one that rejects every creation, and one
  that rejects only the creation of the second view's temporary view.
\<close>

definition mvConfig :: ConversionConfig where
  "mvConfig = sampleConfig\<lparr> Tables := Some [], MaterializedViews := Some [''mv1'', ''mv2''] \<rparr>"

definition abConfig :: ConversionConfig where
  "abConfig = sampleConfig\<lparr> Tables := Some [''a'', ''b''], MaterializedViews := Some [] \<rparr>"

definition dropsFail :: "World \<Rightarrow> Stmt \<Rightarrow> bool" where
  "dropsFail w s = (case s of CreateViewAs v src \<Rightarrow> False | _ \<Rightarrow> True)"

definition createsFail :: "World \<Rightarrow> Stmt \<Rightarrow> bool" where
  "createsFail w s = (case s of CreateViewAs v src \<Rightarrow> True | _ \<Rightarrow> False)"

definition secondCreateFails :: "World \<Rightarrow> Stmt \<Rightarrow> bool" where
  "secondCreateFails w s = (s = CreateViewAs ''mv2_temp'' ''mv2'')"

definition cleanupFails :: "World \<Rightarrow> Stmt \<Rightarrow> bool" where
  "cleanupFails w s = (case s of DropView v \<Rightarrow> True | _ \<Rightarrow> False)"

definition startRun :: Run where
  "startRun = \<lparr> world = emptyWorld, deferred = [], modelsMap = Map.empty \<rparr>"

text \<open>
  A run over the single table \<open>t\<close>: the generator reflects it as \<open>tModel\<close>, and the
  configuration carries the overrides of \<open>t\<close>.
\<close>

definition tExternals :: Externals where
  "tExternals = plainExternals\<lparr> GenerateModel := (\<lambda>w name. Some tModel) \<rparr>"

definition tConfig :: ConversionConfig where
  "tConfig = overrideConfig\<lparr> Tables := Some [''t''], MaterializedViews := Some [] \<rparr>"

section \<open>Relation field synthesis: the type string\<close>

lemma lastIndexFrom_None: "lastIndexFrom s [c] = None \<longleftrightarrow> c \<notin> set s"
  by (induction s) (auto split: option.splits)

lemma lastIndexFrom_Some:
  "lastIndexFrom s [c] = Some i \<Longrightarrow> drop (Suc i) s = rev (takeWhile (\<lambda>x. x \<noteq> c) (rev s))"
proof (induction s arbitrary: i)
  case Nil
  then show ?case by simp
next
  case (Cons x xs)
  show ?case
  proof (cases "lastIndexFrom xs [c]")
    case None
    then have notin: "c \<notin> set xs" by (simp add: lastIndexFrom_None)
    from Cons.prems None have "x = c" "i = 0" by (auto split: if_splits)
    from notin have "\<forall>y\<in>set (rev xs). y \<noteq> c" by auto
    then have "takeWhile (\<lambda>y. y \<noteq> c) (rev xs @ [c]) = rev xs"
      by (subst takeWhile_append2) simp_all
    with \<open>x = c\<close> \<open>i = 0\<close> show ?thesis by simp
  next
    case (Some j)
    then have "c \<in> set xs" using lastIndexFrom_None [of xs c] by auto
    moreover from Cons.prems Some have "i = Suc j" by simp
    ultimately show ?thesis using Cons.IH [OF Some] by (simp add: takeWhile_append1)
  qed
qed

lemma rev_takeWhile_absent:
  assumes "c \<notin> set s"
  shows "rev (takeWhile (\<lambda>x. x \<noteq> c) (rev s)) = s"
proof -
  have "takeWhile (\<lambda>x. x \<noteq> c) (rev s) = rev s"
    by (rule iffD2 [OF takeWhile_eq_all_conv]) (use assms in auto)
  then show ?thesis by (simp only: rev_rev_ident)
qed

lemma baseTypeName_spec: "baseTypeName s = spec_localTypeName s"
proof (cases "lastIndexFrom s ''.''")
  case None
  then have "CHR ''.'' \<notin> set s" by (simp add: lastIndexFrom_None)
  then have "rev (takeWhile (\<lambda>x. x \<noteq> CHR ''.'') (rev s)) = s"
    by (rule rev_takeWhile_absent)
  with None show ?thesis
    by (simp only: baseTypeName_def strings_LastIndex_def spec_localTypeName_def Let_def
          option.case if_False simp_thms)
next
  case (Some i)
  then show ?thesis
    using lastIndexFrom_Some [OF Some]
    by (simp add: baseTypeName_def strings_LastIndex_def spec_localTypeName_def nat_add_distrib Let_def)
qed

lemma spec_localTypeName_append:
  "CHR ''.'' \<notin> set t \<Longrightarrow> spec_localTypeName (q @ ''.'' @ t) = t"
proof -
  assume "CHR ''.'' \<notin> set t"
  then have "\<forall>y\<in>set (rev t). y \<noteq> CHR ''.''" by auto
  then have "takeWhile (\<lambda>c. c \<noteq> CHR ''.'') (rev t @ CHR ''.'' # rev q) = rev t"
    by (subst takeWhile_append2) simp_all
  then show ?thesis by (simp add: spec_localTypeName_def)
qed

lemma spec_localTypeName_nodot:
  "CHR ''.'' \<notin> set s \<Longrightarrow> spec_localTypeName s = s"
  unfolding spec_localTypeName_def by (rule rev_takeWhile_absent)

lemma Type_genRelationField:
  "Type (genRelationField lc ef fld) =
     (if HasMany ef then ''[]'' else '''') @ (if Pointer ef then ''*'' else '''')
       @ baseTypeName (StructPropType ef)"
  by (simp add: genRelationField_def baseTypeOf_def)

text \<open>
  Claim C2. The type of a synthesized relation field is the local type name (what follows
  the last dot of the property type), with \<open>*\<close> in front when \<open>Pointer\<close> is set and
  \<open>[]\<close> in front of that when \<open>HasMany\<close> is set; \<open>models.Attachment\<close> with both
  flags gives \<open>[]*Attachment\<close>; and the relation is one-to-many exactly when
  \<open>HasMany\<close> is set, one-to-one otherwise.
\<close>

theorem genRelationField_type:
  "Type (genRelationField lc ef fld) =
     (if HasMany ef then ''[]'' else '''') @ (if Pointer ef then ''*'' else '''')
       @ spec_localTypeName (StructPropType ef)
   \<and> Type (genRelationField lc
        \<lparr> StructPropName = n, StructPropType = ''models.Attachment'', FkStructPropName = fk,
          RefStructPropName = rf, HasMany = True, Pointer = True \<rparr> fld) = ''[]*Attachment''
   \<and> (map_option relationship (Relation (genRelationField lc ef fld)) = Some field_HasMany)
       = HasMany ef
   \<and> (map_option relationship (Relation (genRelationField lc ef fld)) = Some field_HasOne)
       = (\<not> HasMany ef)"
proof -
  have a: "Type (genRelationField lc ef fld) =
     (if HasMany ef then ''[]'' else '''') @ (if Pointer ef then ''*'' else '''')
       @ spec_localTypeName (StructPropType ef)"
    by (simp add: Type_genRelationField baseTypeName_spec)
  have "spec_localTypeName (''models'' @ ''.'' @ ''Attachment'') = ''Attachment''"
    by (rule spec_localTypeName_append) simp
  then have b: "Type (genRelationField lc
        \<lparr> StructPropName = n, StructPropType = ''models.Attachment'', FkStructPropName = fk,
          RefStructPropName = rf, HasMany = True, Pointer = True \<rparr> fld) = ''[]*Attachment''"
    by (simp add: Type_genRelationField baseTypeName_spec)
  have c: "(map_option relationship (Relation (genRelationField lc ef fld)) = Some field_HasMany)
       = HasMany ef"
    by (simp add: genRelationField_def)
  have d: "(map_option relationship (Relation (genRelationField lc ef fld)) = Some field_HasOne)
       = (\<not> HasMany ef)"
    by (simp add: genRelationField_def)
  from a b c d show ?thesis by blast
qed

text \<open>
  Claim C8, amended. A property type without any dot, the empty string included, is used
  as it is for the base type name, so the field's type is the marks followed by the whole
  string; a property type that ends in a dot has the empty string as its base type
  name. Synthesis is a total function: it has no failing branch.
\<close>

theorem baseTypeName_malformed:
  "(CHR ''.'' \<notin> set s \<longrightarrow> baseTypeName s = s)
   \<and> baseTypeName (q @ ''.'') = ''''
   \<and> (CHR ''.'' \<notin> set (StructPropType ef) \<longrightarrow>
        Type (genRelationField lc ef fld) =
          (if HasMany ef then ''[]'' else '''') @ (if Pointer ef then ''*'' else '''')
            @ StructPropType ef)"
proof -
  have "spec_localTypeName (q @ ''.'' @ '''') = ''''"
    by (rule spec_localTypeName_append) simp
  then have "baseTypeName (q @ ''.'') = ''''" by (simp add: baseTypeName_spec)
  then show ?thesis
    by (simp add: Type_genRelationField baseTypeName_spec spec_localTypeName_nodot)
qed

theorem baseTypeName_malformed_witness:
  "CHR ''.'' \<notin> set '''' \<and> baseTypeName '''' = ''''
   \<and> baseTypeName (''models'' @ ''.'') = ''''
   \<and> CHR ''.'' \<notin> set (StructPropType \<lparr> StructPropName = ''Owner'', StructPropType = ''User'',
         FkStructPropName = ''OwnerID'', RefStructPropName = ''ID'', HasMany = False, Pointer = True \<rparr>)
   \<and> Type (genRelationField id \<lparr> StructPropName = ''Owner'', StructPropType = ''User'',
         FkStructPropName = ''OwnerID'', RefStructPropName = ''ID'', HasMany = False, Pointer = True \<rparr>
         (FieldNew '''' '''' Map.empty)) = ''*User''"
  using baseTypeName_malformed [of "''''" "''models''"
     "\<lparr> StructPropName = ''Owner'', StructPropType = ''User'',
         FkStructPropName = ''OwnerID'', RefStructPropName = ''ID'', HasMany = False, Pointer = True \<rparr>"
     id "FieldNew '''' '''' Map.empty"]
  by simp

text \<open>
  Claim C8 as stated fails for a string with no local segment after its last separator:
  for \<open>models.\<close> the synthesized type is empty, not the full string.
\<close>

theorem trailing_separator_counterexample:
  "Type (genRelationField id \<lparr> StructPropName = ''Items'', StructPropType = ''models.'',
         FkStructPropName = ''ID'', RefStructPropName = ''ID'', HasMany = False, Pointer = False \<rparr>
         (FieldNew '''' '''' Map.empty)) = ''''
   \<and> Type (genRelationField id \<lparr> StructPropName = ''Items'', StructPropType = ''models.'',
         FkStructPropName = ''ID'', RefStructPropName = ''ID'', HasMany = False, Pointer = False \<rparr>
         (FieldNew '''' '''' Map.empty)) \<noteq> ''models.''"
  by (simp add: genRelationField_def baseTypeOf_def baseTypeName_def strings_LastIndex_def)

section \<open>The startup merge\<close>

lemma mergeDefaults_apply:
  "mergeDefaults defaults m k = (case m k of Some v \<Rightarrow> Some v | None \<Rightarrow> map_of defaults k)"
  unfolding mergeDefaults_def
proof (induction defaults arbitrary: m)
  case Nil
  then show ?case by (simp split: option.splits)
next
  case (Cons kv kvs)
  obtain k0 v0 where kv: "kv = (k0, v0)" by (cases kv)
  show ?case by (simp add: kv Cons.IH split: option.splits)
qed

lemma mergeDefaults_idem:
  "mergeDefaults defaults (mergeDefaults defaults m) = mergeDefaults defaults m"
  by (rule ext) (simp add: mergeDefaults_apply split: option.splits)

lemma fold_append_missing:
  "fold (\<lambda>p acc. if p \<in> S then acc else acc @ [p]) ds acc = acc @ filter (\<lambda>p. p \<notin> S) ds"
  by (induction ds arbitrary: acc) simp_all

lemma mergeImportPackagePaths_eq:
  "mergeImportPackagePaths ds ps = ps @ filter (\<lambda>p. p \<notin> set ps) ds"
  by (simp add: mergeImportPackagePaths_def fold_append_missing)

lemma mergeImportPackagePaths_idem:
  "mergeImportPackagePaths ds (mergeImportPackagePaths ds ps) = mergeImportPackagePaths ds ps"
proof -
  have "filter (\<lambda>p. p \<notin> set (ps @ filter (\<lambda>p. p \<notin> set ps) ds)) ds = []"
    by (auto simp: filter_empty_conv)
  then show ?thesis by (simp add: mergeImportPackagePaths_eq)
qed

text \<open>
  Claim C3. After the startup merge a key of \<open>TypeMap\<close> or \<open>DomainTypeMap\<close> that the
  user's map has keeps the user's value, and a key the user's map lacks gets the built-in
  value when there is one; merging a second time changes nothing. The same holds for the
  merge loop over any enumeration \<open>defaults\<close> of any default map.
\<close>

theorem mergeConfig_user_wins_idempotent:
  "TypeMap (mergeConfig cfg) k =
     (case TypeMap cfg k of Some v \<Rightarrow> Some v | None \<Rightarrow> map_of conversionConfig_TypeMap k)
   \<and> DomainTypeMap (mergeConfig cfg) k =
     (case DomainTypeMap cfg k of Some v \<Rightarrow> Some v
      | None \<Rightarrow> map_of conversionConfig_DomainTypeMap k)
   \<and> mergeConfig (mergeConfig cfg) = mergeConfig cfg
   \<and> mergeDefaults defaults m k =
     (case m k of Some v \<Rightarrow> Some v | None \<Rightarrow> map_of defaults k)
   \<and> mergeDefaults defaults (mergeDefaults defaults m) = mergeDefaults defaults m"
  by (simp add: mergeConfig_def mergeDefaults_apply mergeDefaults_idem mergeImportPackagePaths_idem)


section \<open>Configuration errors\<close>

lemmas trim_eval = strings_TrimSpace_def leadingRune_def spaceRunes_def trimLeading.simps

lemma TrimSpace_empty: "strings_TrimSpace '''' = ''''"
  by (simp add: trim_eval)


lemma msg_OutPath: "strings_TrimSpace ''configuration error: OutPath is required'' \<noteq> ''''"
  by (simp add: trim_eval)

lemma msg_dialect: "strings_TrimSpace dialectMessage \<noteq> ''''"
  by (simp add: trim_eval dialectMessage_def quote_def POSTGRESQL_def SQLITE_def)

lemma msg_DbHost:
  "strings_TrimSpace ''configuration error: DbHost is required for postgresql dialect'' \<noteq> ''''"
  by (simp add: trim_eval)

lemma msg_DbName:
  "strings_TrimSpace ''configuration error: DbName is required for postgresql dialect'' \<noteq> ''''"
  by (simp add: trim_eval)

lemma msg_Sqlitedbpath:
  "strings_TrimSpace ''configuration error: Sqlitedbpath is required for sqlite dialect'' \<noteq> ''''"
  by (simp add: trim_eval)

lemma usage_reports:
  "strings_TrimSpace msg \<noteq> '''' \<Longrightarrow>
     usage prog code msg = \<lparr> exitCode = code, stderr = ''Error: '' @ msg @ nl @ nl @ usageText prog \<rparr>"
  by (simp add: usage_def)

lemma mergeConfig_keeps:
  "OutPath (mergeConfig cfg) = OutPath cfg"
  "DatabaseDialect (mergeConfig cfg) = DatabaseDialect cfg"
  "DbHost (mergeConfig cfg) = DbHost cfg"
  "DbPort (mergeConfig cfg) = DbPort cfg"
  "DbName (mergeConfig cfg) = DbName cfg"
  "DbUser (mergeConfig cfg) = DbUser cfg"
  "DbPassword (mergeConfig cfg) = DbPassword cfg"
  "DbSSLMode (mergeConfig cfg) = DbSSLMode cfg"
  "Sqlitedbpath (mergeConfig cfg) = Sqlitedbpath cfg"
  by (simp_all add: mergeConfig_def)

lemma validateConfig_error:
  assumes "missingRequired cfg"
  shows "\<exists>msg. strings_TrimSpace msg \<noteq> '''' \<and> validateConfig prog cfg = Inl (usage prog 2 msg)"
proof (cases "strings_TrimSpace (OutPath cfg) = ''''")
  case True
  then show ?thesis using msg_OutPath by (auto simp: validateConfig_def)
next
  case out: False
  show ?thesis
  proof (cases "DatabaseDialect cfg = POSTGRESQL")
    case pg: True
    with assms out have "strings_TrimSpace (DbHost cfg) = '''' \<or> strings_TrimSpace (DbName cfg) = ''''"
      by (auto simp: missingRequired_def POSTGRESQL_def SQLITE_def)
    with pg out show ?thesis using msg_DbHost msg_DbName
      by (auto simp: validateConfig_def Let_def)
  next
    case npg: False
    show ?thesis
    proof (cases "DatabaseDialect cfg = SQLITE")
      case True
      with assms out npg have "strings_TrimSpace (Sqlitedbpath cfg) = ''''"
        by (auto simp: missingRequired_def)
      with True out npg show ?thesis using msg_Sqlitedbpath
        by (auto simp: validateConfig_def Let_def)
    next
      case False
      with out npg show ?thesis using msg_dialect
        by (auto simp: validateConfig_def)
    qed
  qed
qed

lemma validateConfig_ok:
  assumes "\<not> missingRequired cfg"
  shows "validateConfig prog cfg =
           Inr (if DatabaseDialect cfg = POSTGRESQL \<and> DbPort cfg = 0 then cfg\<lparr> DbPort := 5432 \<rparr> else cfg)"
  using assms by (auto simp: missingRequired_def validateConfig_def Let_def POSTGRESQL_def SQLITE_def)

text \<open>
  Claim C9. A configuration whose \<open>OutPath\<close> is missing, whose dialect is neither
  postgresql nor sqlite, whose \<open>DbHost\<close> or \<open>DbName\<close> is missing under postgresql, or
  whose \<open>Sqlitedbpath\<close> is missing under sqlite makes \<open>main\<close> write an error line with
  a non-empty message and exit with status 2; no converter is called, so whatever the
  environment, the run ends before any database or file work.
\<close>

theorem configuration_errors_exit:
  assumes "strings_TrimSpace (OutPath cfg) = ''''
      \<or> (DatabaseDialect cfg \<noteq> POSTGRESQL \<and> DatabaseDialect cfg \<noteq> SQLITE)
      \<or> (DatabaseDialect cfg = POSTGRESQL
           \<and> (strings_TrimSpace (DbHost cfg) = '''' \<or> strings_TrimSpace (DbName cfg) = ''''))
      \<or> (DatabaseDialect cfg = SQLITE \<and> strings_TrimSpace (Sqlitedbpath cfg) = '''')"
  shows "\<exists>msg. msg \<noteq> ''''
           \<and> main_config prog cfg =
               Inl \<lparr> exitCode = 2, stderr = ''Error: '' @ msg @ nl @ nl @ usageText prog \<rparr>
           \<and> (\<forall>env. startup prog env cfg =
               ConfigExit \<lparr> exitCode = 2, stderr = ''Error: '' @ msg @ nl @ nl @ usageText prog \<rparr>)"
proof -
  from assms have "missingRequired (mergeConfig cfg)"
    by (simp add: missingRequired_def mergeConfig_keeps)
  then obtain msg where msg: "strings_TrimSpace msg \<noteq> ''''"
    and v: "validateConfig prog (mergeConfig cfg) = Inl (usage prog 2 msg)"
    using validateConfig_error by blast
  from msg have ne: "msg \<noteq> ''''" using TrimSpace_empty by auto
  from v have "main_config prog cfg = Inl (usage prog 2 msg)"
    by (simp only: main_config_def sum.case)
  then have m: "main_config prog cfg =
      Inl \<lparr> exitCode = 2, stderr = ''Error: '' @ msg @ nl @ nl @ usageText prog \<rparr>"
    by (simp only: usage_reports [OF msg])
  then have s: "\<forall>env. startup prog env cfg =
      ConfigExit \<lparr> exitCode = 2, stderr = ''Error: '' @ msg @ nl @ nl @ usageText prog \<rparr>"
    by (simp only: startup_def sum.case simp_thms)
  show ?thesis
    by (rule exI [of _ msg], intro conjI) (rule ne, rule m, rule s)
qed

text \<open>Witness for C9: the sample configuration with a blank \<open>DbHost\<close>.\<close>

theorem configuration_errors_exit_witness:
  "strings_TrimSpace (DbHost (sampleConfig\<lparr> DbHost := ''  '' \<rparr>)) = ''''
   \<and> (\<exists>msg. msg \<noteq> ''''
         \<and> main_config ''gormdb2struct'' (sampleConfig\<lparr> DbHost := ''  '' \<rparr>) =
             Inl \<lparr> exitCode = 2,
                   stderr = ''Error: '' @ msg @ nl @ nl @ usageText ''gormdb2struct'' \<rparr>
         \<and> (\<forall>env. startup ''gormdb2struct'' env (sampleConfig\<lparr> DbHost := ''  '' \<rparr>) =
             ConfigExit \<lparr> exitCode = 2,
                   stderr = ''Error: '' @ msg @ nl @ nl @ usageText ''gormdb2struct'' \<rparr>))"
proof -
  have h: "strings_TrimSpace (DbHost (sampleConfig\<lparr> DbHost := ''  '' \<rparr>)) = ''''"
    by (simp add: trim_eval)
  have pg: "DatabaseDialect (sampleConfig\<lparr> DbHost := ''  '' \<rparr>) = POSTGRESQL"
    by (simp add: sampleConfig_def POSTGRESQL_def)
  from h pg have hyp:
    "strings_TrimSpace (OutPath (sampleConfig\<lparr> DbHost := ''  '' \<rparr>)) = ''''
      \<or> (DatabaseDialect (sampleConfig\<lparr> DbHost := ''  '' \<rparr>) \<noteq> POSTGRESQL
           \<and> DatabaseDialect (sampleConfig\<lparr> DbHost := ''  '' \<rparr>) \<noteq> SQLITE)
      \<or> (DatabaseDialect (sampleConfig\<lparr> DbHost := ''  '' \<rparr>) = POSTGRESQL
           \<and> (strings_TrimSpace (DbHost (sampleConfig\<lparr> DbHost := ''  '' \<rparr>)) = ''''
                \<or> strings_TrimSpace (DbName (sampleConfig\<lparr> DbHost := ''  '' \<rparr>)) = ''''))
      \<or> (DatabaseDialect (sampleConfig\<lparr> DbHost := ''  '' \<rparr>) = SQLITE
           \<and> strings_TrimSpace (Sqlitedbpath (sampleConfig\<lparr> DbHost := ''  '' \<rparr>)) = '''')"
    by (intro disjI2 conjI disjI1)
  show ?thesis
    by (rule conjI [OF h configuration_errors_exit [OF hyp]])
qed

lemma validateConfig_Inr:
  assumes "validateConfig prog cfg = Inr cfg'"
  shows "\<not> missingRequired cfg
         \<and> cfg' = (if DatabaseDialect cfg = POSTGRESQL \<and> DbPort cfg = 0
                   then cfg\<lparr> DbPort := 5432 \<rparr> else cfg)"
proof -
  have "\<not> missingRequired cfg"
  proof
    assume "missingRequired cfg"
    then obtain msg where "validateConfig prog cfg = Inl (usage prog 2 msg)"
      using validateConfig_error by blast
    with assms show False by simp
  qed
  then show ?thesis using validateConfig_ok [of cfg prog] assms by simp
qed

section \<open>Connection parameters and the environment\<close>

lemma fillHost_fields:
  "DbHost (fillHost env cfg) =
     (if DbHost cfg \<noteq> '''' then DbHost cfg
      else if os_Getenv env ''DB_HOST'' \<noteq> '''' then os_Getenv env ''DB_HOST''
      else ''localhost'')"
  "DbPort (fillHost env cfg) = DbPort cfg"
  "DbName (fillHost env cfg) = DbName cfg"
  "DbUser (fillHost env cfg) = DbUser cfg"
  "DbPassword (fillHost env cfg) = DbPassword cfg"
  "DbSSLMode (fillHost env cfg) = DbSSLMode cfg"
  by (simp_all add: fillHost_def Let_def)

lemma fillPort_Inr:
  assumes "fillPort env cfg = Inr cfg'"
  shows "DbHost cfg' = DbHost cfg" "DbName cfg' = DbName cfg" "DbUser cfg' = DbUser cfg"
    "DbPassword cfg' = DbPassword cfg" "DbSSLMode cfg' = DbSSLMode cfg"
    "DbPort cfg \<noteq> 0 \<Longrightarrow> DbPort cfg' = DbPort cfg"
    "DbPort cfg = 0 \<Longrightarrow> os_Getenv env ''DB_PORT'' = '''' \<Longrightarrow> DbPort cfg' = 5432"
    "DbPort cfg = 0 \<Longrightarrow> os_Getenv env ''DB_PORT'' \<noteq> '''' \<Longrightarrow>
       strconv_Atoi (os_Getenv env ''DB_PORT'') = Some (DbPort cfg')"
  using assms
  by (auto simp: fillPort_def Let_def split: if_splits option.splits)

lemma fillPort_total:
  "(\<exists>cfg'. fillPort env cfg = Inr cfg') =
     (\<not> (DbPort cfg = 0 \<and> os_Getenv env ''DB_PORT'' \<noteq> ''''
          \<and> strconv_Atoi (os_Getenv env ''DB_PORT'') = None))"
  by (auto simp: fillPort_def Let_def split: option.splits)

lemma fillName_Inr:
  assumes "fillName env cfg = Inr cfg'"
  shows "DbHost cfg' = DbHost cfg" "DbPort cfg' = DbPort cfg" "DbUser cfg' = DbUser cfg"
    "DbPassword cfg' = DbPassword cfg" "DbSSLMode cfg' = DbSSLMode cfg"
    "DbName cfg' = (if DbName cfg \<noteq> '''' then DbName cfg else os_Getenv env ''DB_NAME'')"
  using assms
  by (auto simp: fillName_def Let_def split: if_splits)

lemma fillName_total:
  "(\<exists>cfg'. fillName env cfg = Inr cfg') =
     (\<not> (DbName cfg = '''' \<and> os_Getenv env ''DB_NAME'' = ''''))"
  by (auto simp: fillName_def Let_def)

lemma fillCredentials_fields:
  "DbHost (fillCredentials env cfg) = DbHost cfg"
  "DbPort (fillCredentials env cfg) = DbPort cfg"
  "DbName (fillCredentials env cfg) = DbName cfg"
  "DbSSLMode (fillCredentials env cfg) = DbSSLMode cfg"
  "DbUser (fillCredentials env cfg) =
     (if DbUser cfg \<noteq> '''' then DbUser cfg else os_Getenv env ''DB_USER'')"
  "DbPassword (fillCredentials env cfg) =
     (if DbPassword cfg \<noteq> '''' then DbPassword cfg else os_Getenv env ''DB_PASSWORD'')"
  by (simp_all add: fillCredentials_def Let_def)

lemma fillConnection_stages:
  assumes "fillConnection env cfg = Inr cfg'"
  obtains c1 c2 where "fillPort env (fillHost env cfg) = Inr c1" "fillName env c1 = Inr c2"
    "cfg' = fillCredentials env c2"
  using assms by (auto simp: fillConnection_def split: sum.splits)

lemma fillConnection_Inr:
  assumes "fillConnection env cfg = Inr cfg'"
  shows "DbHost cfg' = (if DbHost cfg \<noteq> '''' then DbHost cfg
                        else if os_Getenv env ''DB_HOST'' \<noteq> '''' then os_Getenv env ''DB_HOST''
                        else ''localhost'')"
    and "DbPort cfg \<noteq> 0 \<Longrightarrow> DbPort cfg' = DbPort cfg"
    and "DbPort cfg = 0 \<Longrightarrow> os_Getenv env ''DB_PORT'' = '''' \<Longrightarrow> DbPort cfg' = 5432"
    and "DbPort cfg = 0 \<Longrightarrow> os_Getenv env ''DB_PORT'' \<noteq> '''' \<Longrightarrow>
           strconv_Atoi (os_Getenv env ''DB_PORT'') = Some (DbPort cfg')"
    and "DbName cfg' = (if DbName cfg \<noteq> '''' then DbName cfg else os_Getenv env ''DB_NAME'')"
    and "DbUser cfg' = (if DbUser cfg \<noteq> '''' then DbUser cfg else os_Getenv env ''DB_USER'')"
    and "DbPassword cfg' = (if DbPassword cfg \<noteq> '''' then DbPassword cfg
                            else os_Getenv env ''DB_PASSWORD'')"
    and "DbSSLMode cfg' = DbSSLMode cfg"
proof -
  from assms obtain c1 c2 where c1: "fillPort env (fillHost env cfg) = Inr c1"
    and c2: "fillName env c1 = Inr c2" and c': "cfg' = fillCredentials env c2"
    by (rule fillConnection_stages)
  note p = fillPort_Inr [OF c1] and n = fillName_Inr [OF c2]
  show "DbHost cfg' = (if DbHost cfg \<noteq> '''' then DbHost cfg
                        else if os_Getenv env ''DB_HOST'' \<noteq> '''' then os_Getenv env ''DB_HOST''
                        else ''localhost'')"
    by (simp only: c' fillCredentials_fields n p fillHost_fields)
  show "DbPort cfg \<noteq> 0 \<Longrightarrow> DbPort cfg' = DbPort cfg"
    using p(6) by (simp add: c' fillCredentials_fields n fillHost_fields)
  show "DbPort cfg = 0 \<Longrightarrow> os_Getenv env ''DB_PORT'' = '''' \<Longrightarrow> DbPort cfg' = 5432"
    using p(7) by (simp add: c' fillCredentials_fields n fillHost_fields)
  show "DbPort cfg = 0 \<Longrightarrow> os_Getenv env ''DB_PORT'' \<noteq> '''' \<Longrightarrow>
           strconv_Atoi (os_Getenv env ''DB_PORT'') = Some (DbPort cfg')"
    using p(8) by (simp add: c' fillCredentials_fields n fillHost_fields)
  show "DbName cfg' = (if DbName cfg \<noteq> '''' then DbName cfg else os_Getenv env ''DB_NAME'')"
    by (simp only: c' fillCredentials_fields n p fillHost_fields)
  show "DbUser cfg' = (if DbUser cfg \<noteq> '''' then DbUser cfg else os_Getenv env ''DB_USER'')"
    by (simp only: c' fillCredentials_fields n p fillHost_fields)
  show "DbPassword cfg' = (if DbPassword cfg \<noteq> '''' then DbPassword cfg
                            else os_Getenv env ''DB_PASSWORD'')"
    by (simp only: c' fillCredentials_fields n p fillHost_fields)
  show "DbSSLMode cfg' = DbSSLMode cfg"
    by (simp only: c' fillCredentials_fields n p fillHost_fields)
qed

lemma fillConnection_total:
  "(\<exists>cfg'. fillConnection env cfg = Inr cfg') =
     (\<not> (DbPort cfg = 0 \<and> os_Getenv env ''DB_PORT'' \<noteq> ''''
          \<and> strconv_Atoi (os_Getenv env ''DB_PORT'') = None)
      \<and> \<not> (DbName cfg = '''' \<and> os_Getenv env ''DB_NAME'' = ''''))"
proof (cases "fillPort env (fillHost env cfg)")
  case (Inl f)
  then have "\<not> (\<exists>c. fillPort env (fillHost env cfg) = Inr c)" by simp
  then have "DbPort cfg = 0 \<and> os_Getenv env ''DB_PORT'' \<noteq> ''''
          \<and> strconv_Atoi (os_Getenv env ''DB_PORT'') = None"
    by (simp only: fillPort_total fillHost_fields simp_thms)
  with Inl show ?thesis by (simp add: fillConnection_def)
next
  case (Inr c1)
  then have "\<exists>c. fillPort env (fillHost env cfg) = Inr c" by simp
  then have np: "\<not> (DbPort cfg = 0 \<and> os_Getenv env ''DB_PORT'' \<noteq> ''''
          \<and> strconv_Atoi (os_Getenv env ''DB_PORT'') = None)"
    by (simp only: fillPort_total fillHost_fields simp_thms)
  have nm: "DbName c1 = DbName cfg"
    by (simp only: fillPort_Inr [OF Inr] fillHost_fields)
  have "(\<exists>cfg'. fillConnection env cfg = Inr cfg') = (\<exists>c2. fillName env c1 = Inr c2)"
    using Inr by (auto simp: fillConnection_def split: sum.splits)
  also have "\<dots> = (\<not> (DbName cfg = '''' \<and> os_Getenv env ''DB_NAME'' = ''''))"
    by (simp only: fillName_total nm)
  finally show ?thesis using np by simp
qed

lemma postgresDSN_Inr_iff:
  "(postgresDSN env cfg = Inr d) = (\<exists>cfg'. fillConnection env cfg = Inr cfg' \<and> d = dsnConfig cfg')"
  by (auto simp: postgresDSN_def split: sum.splits)

lemma dsnConfig_fields:
  "Server (dsnConfig cfg) = DbHost cfg" "Port (dsnConfig cfg) = DbPort cfg"
  "DatabaseName (dsnConfig cfg) = DbName cfg" "User (dsnConfig cfg) = DbUser cfg"
  "Password (dsnConfig cfg) = DbPassword cfg" "SSLMode (dsnConfig cfg) = DbSSLMode cfg"
  by (simp_all add: dsnConfig_def)

lemma postgresDSN_Inr:
  assumes "postgresDSN env cfg = Inr d"
  shows "Server d = (if DbHost cfg \<noteq> '''' then DbHost cfg
                     else if os_Getenv env ''DB_HOST'' \<noteq> '''' then os_Getenv env ''DB_HOST''
                     else ''localhost'')"
    and "DbPort cfg \<noteq> 0 \<longrightarrow> Port d = DbPort cfg"
    and "DbPort cfg = 0 \<and> os_Getenv env ''DB_PORT'' = '''' \<longrightarrow> Port d = 5432"
    and "DbPort cfg = 0 \<and> os_Getenv env ''DB_PORT'' \<noteq> '''' \<longrightarrow>
           strconv_Atoi (os_Getenv env ''DB_PORT'') = Some (Port d)"
    and "DatabaseName d = (if DbName cfg \<noteq> '''' then DbName cfg else os_Getenv env ''DB_NAME'')"
    and "User d = (if DbUser cfg \<noteq> '''' then DbUser cfg else os_Getenv env ''DB_USER'')"
    and "Password d = (if DbPassword cfg \<noteq> '''' then DbPassword cfg
                       else os_Getenv env ''DB_PASSWORD'')"
proof -
  from assms obtain cfg' where f: "fillConnection env cfg = Inr cfg'" and d: "d = dsnConfig cfg'"
    by (auto simp: postgresDSN_Inr_iff)
  note r = fillConnection_Inr [OF f]
  show "Server d = (if DbHost cfg \<noteq> '''' then DbHost cfg
                     else if os_Getenv env ''DB_HOST'' \<noteq> '''' then os_Getenv env ''DB_HOST''
                     else ''localhost'')"
    by (simp only: d dsnConfig_fields r(1))
  show "DbPort cfg \<noteq> 0 \<longrightarrow> Port d = DbPort cfg"
    using r(2) by (simp add: d dsnConfig_fields)
  show "DbPort cfg = 0 \<and> os_Getenv env ''DB_PORT'' = '''' \<longrightarrow> Port d = 5432"
    using r(3) by (simp add: d dsnConfig_fields)
  show "DbPort cfg = 0 \<and> os_Getenv env ''DB_PORT'' \<noteq> '''' \<longrightarrow>
           strconv_Atoi (os_Getenv env ''DB_PORT'') = Some (Port d)"
    using r(4) by (simp add: d dsnConfig_fields)
  show "DatabaseName d = (if DbName cfg \<noteq> '''' then DbName cfg else os_Getenv env ''DB_NAME'')"
    by (simp only: d dsnConfig_fields r(5))
  show "User d = (if DbUser cfg \<noteq> '''' then DbUser cfg else os_Getenv env ''DB_USER'')"
    by (simp only: d dsnConfig_fields r(6))
  show "Password d = (if DbPassword cfg \<noteq> '''' then DbPassword cfg
                       else os_Getenv env ''DB_PASSWORD'')"
    by (simp only: d dsnConfig_fields r(7))
qed

lemma postgresDSN_total:
  "(\<exists>d. postgresDSN env cfg = Inr d) =
     (\<not> (DbPort cfg = 0 \<and> os_Getenv env ''DB_PORT'' \<noteq> ''''
          \<and> strconv_Atoi (os_Getenv env ''DB_PORT'') = None)
      \<and> \<not> (DbName cfg = '''' \<and> os_Getenv env ''DB_NAME'' = ''''))"
proof -
  have "(\<exists>d. postgresDSN env cfg = Inr d) = (\<exists>cfg'. fillConnection env cfg = Inr cfg')"
    by (auto simp: postgresDSN_Inr_iff)
  then show ?thesis by (simp only: fillConnection_total)
qed

lemma TrimSpace_nonempty: "strings_TrimSpace s \<noteq> '''' \<Longrightarrow> s \<noteq> ''''"
  using TrimSpace_empty by auto

lemma main_config_postgres:
  assumes "main_config prog cfg = Inr (PostgresToGorm c)"
  shows "DbHost c = DbHost cfg" "DbHost cfg \<noteq> ''''" "DbName c = DbName cfg" "DbName cfg \<noteq> ''''"
    "DbPort c = (if DbPort cfg = 0 then 5432 else DbPort cfg)" "DbPort c \<noteq> 0"
    "DbUser c = DbUser cfg" "DbPassword c = DbPassword cfg"
proof -
  from assms obtain c' where v: "validateConfig prog (mergeConfig cfg) = Inr c'"
    by (auto simp: main_config_def split: sum.splits)
  with assms have pg: "DatabaseDialect c' = POSTGRESQL" and c: "c = c'"
    by (auto simp: main_config_def split: if_splits)
  note vi = validateConfig_Inr [OF v]
  from vi have c'_eq: "c' = (if DatabaseDialect cfg = POSTGRESQL \<and> DbPort cfg = 0
                   then (mergeConfig cfg)\<lparr> DbPort := 5432 \<rparr> else mergeConfig cfg)"
    by (simp add: mergeConfig_keeps)
  from pg c'_eq have pg0: "DatabaseDialect cfg = POSTGRESQL"
    by (simp add: mergeConfig_keeps split: if_splits)
  from vi pg0 have h: "strings_TrimSpace (DbHost cfg) \<noteq> ''''"
    and n: "strings_TrimSpace (DbName cfg) \<noteq> ''''"
    by (simp_all add: missingRequired_def mergeConfig_keeps)
  show "DbHost cfg \<noteq> ''''" using h by (rule TrimSpace_nonempty)
  show "DbName cfg \<noteq> ''''" using n by (rule TrimSpace_nonempty)
  show "DbHost c = DbHost cfg" by (simp add: c c'_eq mergeConfig_keeps)
  show "DbName c = DbName cfg" by (simp add: c c'_eq mergeConfig_keeps)
  show "DbUser c = DbUser cfg" by (simp add: c c'_eq mergeConfig_keeps)
  show "DbPassword c = DbPassword cfg" by (simp add: c c'_eq mergeConfig_keeps)
  show p: "DbPort c = (if DbPort cfg = 0 then 5432 else DbPort cfg)"
    by (simp add: c c'_eq mergeConfig_keeps pg0)
  then show "DbPort c \<noteq> 0" by simp
qed

lemma startup_PostgresDSN:
  assumes "startup prog env cfg = PostgresDSN d"
  obtains c where "main_config prog cfg = Inr (PostgresToGorm c)" "postgresDSN env c = Inr d"
  using assms by (auto simp: startup_def split: sum.splits Dispatch.splits)

text \<open>
  Claim C10, amended. In \<open>postgresToGorm\<close>, a connection parameter that is empty in the
  configuration value the function receives is filled from its environment variable
  before the DSN is built: the host from \<open>DB_HOST\<close> and then \<open>localhost\<close>, the port from
  \<open>DB_PORT\<close> and then 5432, the name from \<open>DB_NAME\<close>, the user from \<open>DB_USER\<close>, the
  password from \<open>DB_PASSWORD\<close>; the DSN is built unless \<open>DB_PORT\<close> is not a number or
  no database name is found. In a run of the program, \<open>main\<close> has already rejected an
  empty host or name and set a zero port to 5432, so there only the user and the password
  come from the environment.
\<close>

theorem connection_parameters_environment:
  "(postgresDSN env cfg = Inr d \<longrightarrow>
       Server d = (if DbHost cfg \<noteq> '''' then DbHost cfg
                   else if os_Getenv env ''DB_HOST'' \<noteq> '''' then os_Getenv env ''DB_HOST''
                   else ''localhost'')
     \<and> (DbPort cfg \<noteq> 0 \<longrightarrow> Port d = DbPort cfg)
     \<and> (DbPort cfg = 0 \<and> os_Getenv env ''DB_PORT'' = '''' \<longrightarrow> Port d = 5432)
     \<and> (DbPort cfg = 0 \<and> os_Getenv env ''DB_PORT'' \<noteq> '''' \<longrightarrow>
           strconv_Atoi (os_Getenv env ''DB_PORT'') = Some (Port d))
     \<and> DatabaseName d = (if DbName cfg \<noteq> '''' then DbName cfg else os_Getenv env ''DB_NAME'')
     \<and> User d = (if DbUser cfg \<noteq> '''' then DbUser cfg else os_Getenv env ''DB_USER'')
     \<and> Password d = (if DbPassword cfg \<noteq> '''' then DbPassword cfg
                      else os_Getenv env ''DB_PASSWORD''))
   \<and> ((\<exists>d. postgresDSN env cfg = Inr d) =
        (\<not> (DbPort cfg = 0 \<and> os_Getenv env ''DB_PORT'' \<noteq> ''''
             \<and> strconv_Atoi (os_Getenv env ''DB_PORT'') = None)
         \<and> \<not> (DbName cfg = '''' \<and> os_Getenv env ''DB_NAME'' = '''')))
   \<and> (startup prog env cfg = PostgresDSN d \<longrightarrow>
         DbHost cfg \<noteq> '''' \<and> Server d = DbHost cfg
       \<and> DbName cfg \<noteq> '''' \<and> DatabaseName d = DbName cfg
       \<and> Port d = (if DbPort cfg = 0 then 5432 else DbPort cfg)
       \<and> User d = (if DbUser cfg \<noteq> '''' then DbUser cfg else os_Getenv env ''DB_USER'')
       \<and> Password d = (if DbPassword cfg \<noteq> '''' then DbPassword cfg
                        else os_Getenv env ''DB_PASSWORD''))"
proof -
  have A: "postgresDSN env cfg = Inr d \<longrightarrow>
       Server d = (if DbHost cfg \<noteq> '''' then DbHost cfg
                   else if os_Getenv env ''DB_HOST'' \<noteq> '''' then os_Getenv env ''DB_HOST''
                   else ''localhost'')
     \<and> (DbPort cfg \<noteq> 0 \<longrightarrow> Port d = DbPort cfg)
     \<and> (DbPort cfg = 0 \<and> os_Getenv env ''DB_PORT'' = '''' \<longrightarrow> Port d = 5432)
     \<and> (DbPort cfg = 0 \<and> os_Getenv env ''DB_PORT'' \<noteq> '''' \<longrightarrow>
           strconv_Atoi (os_Getenv env ''DB_PORT'') = Some (Port d))
     \<and> DatabaseName d = (if DbName cfg \<noteq> '''' then DbName cfg else os_Getenv env ''DB_NAME'')
     \<and> User d = (if DbUser cfg \<noteq> '''' then DbUser cfg else os_Getenv env ''DB_USER'')
     \<and> Password d = (if DbPassword cfg \<noteq> '''' then DbPassword cfg
                      else os_Getenv env ''DB_PASSWORD'')"
  proof
    assume a: "postgresDSN env cfg = Inr d"
    note r = postgresDSN_Inr [OF a]
    show "Server d = (if DbHost cfg \<noteq> '''' then DbHost cfg
                   else if os_Getenv env ''DB_HOST'' \<noteq> '''' then os_Getenv env ''DB_HOST''
                   else ''localhost'')
     \<and> (DbPort cfg \<noteq> 0 \<longrightarrow> Port d = DbPort cfg)
     \<and> (DbPort cfg = 0 \<and> os_Getenv env ''DB_PORT'' = '''' \<longrightarrow> Port d = 5432)
     \<and> (DbPort cfg = 0 \<and> os_Getenv env ''DB_PORT'' \<noteq> '''' \<longrightarrow>
           strconv_Atoi (os_Getenv env ''DB_PORT'') = Some (Port d))
     \<and> DatabaseName d = (if DbName cfg \<noteq> '''' then DbName cfg else os_Getenv env ''DB_NAME'')
     \<and> User d = (if DbUser cfg \<noteq> '''' then DbUser cfg else os_Getenv env ''DB_USER'')
     \<and> Password d = (if DbPassword cfg \<noteq> '''' then DbPassword cfg
                      else os_Getenv env ''DB_PASSWORD'')"
      by (intro conjI) (rule r)+
  qed
  have C: "startup prog env cfg = PostgresDSN d \<longrightarrow>
         DbHost cfg \<noteq> '''' \<and> Server d = DbHost cfg
       \<and> DbName cfg \<noteq> '''' \<and> DatabaseName d = DbName cfg
       \<and> Port d = (if DbPort cfg = 0 then 5432 else DbPort cfg)
       \<and> User d = (if DbUser cfg \<noteq> '''' then DbUser cfg else os_Getenv env ''DB_USER'')
       \<and> Password d = (if DbPassword cfg \<noteq> '''' then DbPassword cfg
                        else os_Getenv env ''DB_PASSWORD'')"
  proof
    assume s: "startup prog env cfg = PostgresDSN d"
    then obtain c where m: "main_config prog cfg = Inr (PostgresToGorm c)"
      and p: "postgresDSN env c = Inr d" by (rule startup_PostgresDSN)
    note mc = main_config_postgres [OF m] and r = postgresDSN_Inr [OF p]
    have 1: "Server d = DbHost cfg" using r(1) mc(1,2) by simp
    have 2: "DatabaseName d = DbName cfg" using r(5) mc(3,4) by simp
    have 3: "Port d = (if DbPort cfg = 0 then 5432 else DbPort cfg)" using r(2) mc(5,6) by simp
    have 4: "User d = (if DbUser cfg \<noteq> '''' then DbUser cfg else os_Getenv env ''DB_USER'')"
      using r(6) mc(7) by simp
    have 5: "Password d = (if DbPassword cfg \<noteq> '''' then DbPassword cfg
                        else os_Getenv env ''DB_PASSWORD'')"
      using r(7) mc(8) by simp
    show "DbHost cfg \<noteq> '''' \<and> Server d = DbHost cfg
       \<and> DbName cfg \<noteq> '''' \<and> DatabaseName d = DbName cfg
       \<and> Port d = (if DbPort cfg = 0 then 5432 else DbPort cfg)
       \<and> User d = (if DbUser cfg \<noteq> '''' then DbUser cfg else os_Getenv env ''DB_USER'')
       \<and> Password d = (if DbPassword cfg \<noteq> '''' then DbPassword cfg
                        else os_Getenv env ''DB_PASSWORD'')"
      by (intro conjI) (rule mc(2) 1 mc(4) 2 3 4 5)+
  qed
  show ?thesis
    by (rule conjI [OF A conjI [OF postgresDSN_total C]])
qed


lemma validateConfig_DbHost:
  assumes "strings_TrimSpace (OutPath cfg) \<noteq> ''''" "DatabaseDialect cfg = POSTGRESQL"
    "strings_TrimSpace (DbHost cfg) = ''''"
  shows "validateConfig prog cfg =
           Inl (usage prog 2 ''configuration error: DbHost is required for postgresql dialect'')"
  using assms by (simp add: validateConfig_def Let_def)

lemma sample_OutPath: "strings_TrimSpace ''./generated'' \<noteq> ''''"
  by (simp add: trim_eval)

lemma sample_DbHost: "strings_TrimSpace ''localhost'' \<noteq> ''''"
  by (simp add: trim_eval)

lemma sample_DbName: "strings_TrimSpace ''my_database'' \<noteq> ''''"
  by (simp add: trim_eval)

lemma sampleConfig_fields:
  "OutPath sampleConfig = ''./generated''" "DatabaseDialect sampleConfig = POSTGRESQL"
  "DbHost sampleConfig = ''localhost''" "DbPort sampleConfig = 5432"
  "DbName sampleConfig = ''my_database''" "DbUser sampleConfig = ''my_user''"
  "DbPassword sampleConfig = ''secret''" "DbSSLMode sampleConfig = False"
  by (simp_all add: sampleConfig_def POSTGRESQL_def)

lemma startup_empty_host: "main_config ''gormdb2struct'' (sampleConfig\<lparr> DbHost := '''' \<rparr>) =
  Inl (usage ''gormdb2struct'' 2 ''configuration error: DbHost is required for postgresql dialect'')"
proof -
  have "validateConfig ''gormdb2struct'' (mergeConfig (sampleConfig\<lparr> DbHost := '''' \<rparr>)) =
     Inl (usage ''gormdb2struct'' 2 ''configuration error: DbHost is required for postgresql dialect'')"
    by (rule validateConfig_DbHost)
       (simp_all add: mergeConfig_keeps sampleConfig_fields sample_OutPath TrimSpace_empty)
  then show ?thesis by (simp only: main_config_def sum.case)
qed


lemma startup_zero_port: "startup ''gormdb2struct'' [''DB_PORT'' \<mapsto> ''6543''] (sampleConfig\<lparr> DbPort := 0 \<rparr>)
     = PostgresDSN \<lparr> Server = ''localhost'', Port = 5432, DatabaseName = ''my_database'',
         User = ''my_user'', Password = ''secret'', SSLMode = False \<rparr>"
proof -
  have "\<not> missingRequired (mergeConfig (sampleConfig\<lparr> DbPort := 0 \<rparr>))"
    by (simp add: missingRequired_def mergeConfig_keeps sampleConfig_fields sample_OutPath
          sample_DbHost sample_DbName POSTGRESQL_def SQLITE_def)
  then have "validateConfig ''gormdb2struct'' (mergeConfig (sampleConfig\<lparr> DbPort := 0 \<rparr>)) =
      Inr ((mergeConfig (sampleConfig\<lparr> DbPort := 0 \<rparr>))\<lparr> DbPort := 5432 \<rparr>)"
    by (simp add: validateConfig_ok mergeConfig_keeps sampleConfig_fields)
  then have m: "main_config ''gormdb2struct'' (sampleConfig\<lparr> DbPort := 0 \<rparr>) =
      Inr (PostgresToGorm ((mergeConfig (sampleConfig\<lparr> DbPort := 0 \<rparr>))\<lparr> DbPort := 5432 \<rparr>))"
    by (simp add: main_config_def mergeConfig_keeps sampleConfig_fields)
  have "postgresDSN [''DB_PORT'' \<mapsto> ''6543'']
          ((mergeConfig (sampleConfig\<lparr> DbPort := 0 \<rparr>))\<lparr> DbPort := 5432 \<rparr>) =
        Inr \<lparr> Server = ''localhost'', Port = 5432, DatabaseName = ''my_database'',
         User = ''my_user'', Password = ''secret'', SSLMode = False \<rparr>"
    by (simp add: postgresDSN_def fillConnection_def fillHost_def fillPort_def fillName_def
          fillCredentials_def dsnConfig_def Let_def mergeConfig_keeps sampleConfig_fields)
  with m show ?thesis by (simp only: startup_def sum.case Dispatch.case)
qed

text \<open>
  Claim C10 as stated fails for a run of the program: with \<open>DbHost\<close> empty in the
  configuration and \<open>DB_HOST\<close> set, \<open>main\<close> exits with a configuration error instead
  of reading the variable; with \<open>DbPort\<close> zero and \<open>DB_PORT\<close> set to 6543, the DSN gets
  port 5432.
\<close>

theorem empty_host_counterexample:
  "startup ''gormdb2struct'' [''DB_HOST'' \<mapsto> ''db.internal''] (sampleConfig\<lparr> DbHost := '''' \<rparr>)
     = ConfigExit (usage ''gormdb2struct'' 2
         ''configuration error: DbHost is required for postgresql dialect'')
   \<and> startup ''gormdb2struct'' [''DB_PORT'' \<mapsto> ''6543''] (sampleConfig\<lparr> DbPort := 0 \<rparr>)
     = PostgresDSN \<lparr> Server = ''localhost'', Port = 5432, DatabaseName = ''my_database'',
         User = ''my_user'', Password = ''secret'', SSLMode = False \<rparr>"
proof -
  have "startup ''gormdb2struct'' [''DB_HOST'' \<mapsto> ''db.internal''] (sampleConfig\<lparr> DbHost := '''' \<rparr>)
     = ConfigExit (usage ''gormdb2struct'' 2
         ''configuration error: DbHost is required for postgresql dialect'')"
    by (simp only: startup_def startup_empty_host sum.case)
  then show ?thesis using startup_zero_port by (rule conjI)
qed

lemma Atoi_6543: "strconv_Atoi ''6543'' = Some 6543"
  by (simp add: strconv_Atoi_def isDigit_def digitsValue_def)

lemma postgresDSN_all_from_env: "postgresDSN [''DB_HOST'' \<mapsto> ''db.internal'', ''DB_PORT'' \<mapsto> ''6543'',
              ''DB_NAME'' \<mapsto> ''orders'', ''DB_USER'' \<mapsto> ''svc'', ''DB_PASSWORD'' \<mapsto> ''pw'']
     (sampleConfig\<lparr> DbHost := '''', DbPort := 0, DbName := '''', DbUser := '''', DbPassword := '''' \<rparr>)
   = Inr \<lparr> Server = ''db.internal'', Port = 6543, DatabaseName = ''orders'',
         User = ''svc'', Password = ''pw'', SSLMode = False \<rparr>"
  by (simp add: postgresDSN_def fillConnection_def fillHost_def fillPort_def fillName_def
        fillCredentials_def dsnConfig_def Let_def sampleConfig_fields os_Getenv_def Atoi_6543)


lemma startup_credentials_from_env: "startup ''gormdb2struct'' [''DB_USER'' \<mapsto> ''svc'', ''DB_PASSWORD'' \<mapsto> ''pw'']
     (sampleConfig\<lparr> DbUser := '''', DbPassword := '''' \<rparr>)
     = PostgresDSN \<lparr> Server = ''localhost'', Port = 5432, DatabaseName = ''my_database'',
         User = ''svc'', Password = ''pw'', SSLMode = False \<rparr>"
proof -
  have "\<not> missingRequired (mergeConfig (sampleConfig\<lparr> DbUser := '''', DbPassword := '''' \<rparr>))"
    by (simp add: missingRequired_def mergeConfig_keeps sampleConfig_fields sample_OutPath
          sample_DbHost sample_DbName POSTGRESQL_def SQLITE_def)
  then have "validateConfig ''gormdb2struct''
        (mergeConfig (sampleConfig\<lparr> DbUser := '''', DbPassword := '''' \<rparr>)) =
      Inr (mergeConfig (sampleConfig\<lparr> DbUser := '''', DbPassword := '''' \<rparr>))"
    by (simp add: validateConfig_ok mergeConfig_keeps sampleConfig_fields)
  then have m: "main_config ''gormdb2struct'' (sampleConfig\<lparr> DbUser := '''', DbPassword := '''' \<rparr>) =
      Inr (PostgresToGorm (mergeConfig (sampleConfig\<lparr> DbUser := '''', DbPassword := '''' \<rparr>)))"
    by (simp add: main_config_def mergeConfig_keeps sampleConfig_fields)
  have "postgresDSN [''DB_USER'' \<mapsto> ''svc'', ''DB_PASSWORD'' \<mapsto> ''pw'']
          (mergeConfig (sampleConfig\<lparr> DbUser := '''', DbPassword := '''' \<rparr>)) =
        Inr \<lparr> Server = ''localhost'', Port = 5432, DatabaseName = ''my_database'',
         User = ''svc'', Password = ''pw'', SSLMode = False \<rparr>"
    by (simp add: postgresDSN_def fillConnection_def fillHost_def fillPort_def fillName_def
          fillCredentials_def dsnConfig_def Let_def mergeConfig_keeps sampleConfig_fields
          os_Getenv_def)
  with m show ?thesis by (simp only: startup_def sum.case Dispatch.case)
qed

text \<open>
  Witness for C10: all five parameters empty and all five variables set, for the function;
  user and password empty and their variables set, for the program.
\<close>

theorem connection_parameters_environment_witness:
  "postgresDSN [''DB_HOST'' \<mapsto> ''db.internal'', ''DB_PORT'' \<mapsto> ''6543'',
              ''DB_NAME'' \<mapsto> ''orders'', ''DB_USER'' \<mapsto> ''svc'', ''DB_PASSWORD'' \<mapsto> ''pw'']
     (sampleConfig\<lparr> DbHost := '''', DbPort := 0, DbName := '''', DbUser := '''', DbPassword := '''' \<rparr>)
   = Inr \<lparr> Server = ''db.internal'', Port = 6543, DatabaseName = ''orders'',
         User = ''svc'', Password = ''pw'', SSLMode = False \<rparr>
   \<and> strconv_Atoi ''6543'' = Some 6543
   \<and> startup ''gormdb2struct'' [''DB_USER'' \<mapsto> ''svc'', ''DB_PASSWORD'' \<mapsto> ''pw'']
     (sampleConfig\<lparr> DbUser := '''', DbPassword := '''' \<rparr>)
     = PostgresDSN \<lparr> Server = ''localhost'', Port = 5432, DatabaseName = ''my_database'',
         User = ''svc'', Password = ''pw'', SSLMode = False \<rparr>
   \<and> DbHost (sampleConfig\<lparr> DbUser := '''', DbPassword := '''' \<rparr>) \<noteq> ''''
   \<and> DbName (sampleConfig\<lparr> DbUser := '''', DbPassword := '''' \<rparr>) \<noteq> ''''"
proof -
  note T1 = mp [OF conjunct1 [OF connection_parameters_environment] postgresDSN_all_from_env]
  note T2 = mp [OF conjunct2 [OF conjunct2 [OF connection_parameters_environment]] startup_credentials_from_env]
  from T1 have a: "strconv_Atoi ''6543'' = Some 6543"
    by (simp add: sampleConfig_fields os_Getenv_def)
  from T2 have b: "DbHost (sampleConfig\<lparr> DbUser := '''', DbPassword := '''' \<rparr>) \<noteq> ''''"
    and c: "DbName (sampleConfig\<lparr> DbUser := '''', DbPassword := '''' \<rparr>) \<noteq> ''''"
    by blast+
  from postgresDSN_all_from_env a startup_credentials_from_env b c show ?thesis by (intro conjI)
qed

section \<open>Type resolution: the precedence\<close>

lemma PgTypeMap_distinct: "distinct (map fst PgTypeMap_entries)"
  by (simp add: PgTypeMap_entries_def)

lemma fold_hooks_apply:
  assumes f: "\<And>k v m. f (k, v) m = m(k \<mapsto> g v)"
  shows "fold f kvs m0 k =
     (case map_of (rev kvs) k of Some v \<Rightarrow> Some (g v) | None \<Rightarrow> m0 k)"
proof (induction kvs arbitrary: m0)
  case Nil
  then show ?case by simp
next
  case (Cons kv kvs)
  obtain k0 v0 where kv: "kv = (k0, v0)" by (cases kv)
  have "fold f (kv # kvs) m0 k = fold f kvs (m0(k0 \<mapsto> g v0)) k"
    by (simp only: fold_simps kv f)
  also have "\<dots> = (case map_of (rev kvs) k of Some v \<Rightarrow> Some (g v)
                     | None \<Rightarrow> (m0(k0 \<mapsto> g v0)) k)"
    by (rule Cons.IH)
  also have "\<dots> = (case map_of (rev (kv # kvs)) k of Some v \<Rightarrow> Some (g v) | None \<Rightarrow> m0 k)"
    by (simp add: kv map_add_def split: option.splits)
  finally show ?case .
qed

lemma map_of_rev_distinct:
  assumes "distinct (map fst kvs)"
  shows "map_of (rev kvs) = map_of kvs"
proof -
  from assms have "distinct (map fst (rev kvs))" by (simp add: rev_map [symmetric])
  then show ?thesis using assms by (simp add: map_of_inject_set)
qed

lemma dtMaps_apply: "dtMaps cfg k = map_option (typeHook cfg) (PgTypeMap k)"
proof -
  have "dtMaps cfg k =
      (case map_of (rev PgTypeMap_entries) k of Some v \<Rightarrow> Some (typeHook cfg v)
       | None \<Rightarrow> Map.empty k)"
    unfolding dtMaps_def by (rule fold_hooks_apply) simp
  then show ?thesis
    by (simp add: map_of_rev_distinct [OF PgTypeMap_distinct] PgTypeMap_def split: option.splits)
qed

lemma resolvedType_hooked:
  "PgTypeMap (DatabaseTypeName c) = Some b \<Longrightarrow> resolvedType cfg gd c = typeHook cfg b c"
  by (simp add: resolvedType_def GetDataType_def dtMaps_apply)

lemma resolvedType_unhooked:
  "PgTypeMap (DatabaseTypeName c) = None \<Longrightarrow> resolvedType cfg gd c = gd c"
  by (simp add: resolvedType_def GetDataType_def dtMaps_apply)

text \<open>
  Claim C1, amended. For a column whose database type name is a key of the built-in
  mapping \<open>PgTypeMap\<close>, the resolved type is the \<open>DomainTypeMap\<close> value of the column
  type if there is one, otherwise the \<open>TypeMap\<close> value if there is one, otherwise the
  built-in value of the type name (also when the column type is not available). For a
  column whose type name is no key of \<open>PgTypeMap\<close> and whose column type is in neither
  override map, the generator's own inference applies. Where type name and column type
  are one string, this is the precedence of the specification.
\<close>

theorem resolvedType_precedence:
  "(PgTypeMap (DatabaseTypeName c) = Some b \<longrightarrow>
      resolvedType cfg gd c =
        (case ColumnType c of
           None \<Rightarrow> b
         | Some t \<Rightarrow>
             (case DomainTypeMap cfg t of
                Some d \<Rightarrow> d
              | None \<Rightarrow> (case TypeMap cfg t of Some p \<Rightarrow> p | None \<Rightarrow> b))))
   \<and> (PgTypeMap (DatabaseTypeName c) = None
        \<and> (ColumnType c = None
            \<or> (ColumnType c = Some t \<and> DomainTypeMap cfg t = None \<and> TypeMap cfg t = None)) \<longrightarrow>
      resolvedType cfg gd c = gd c)
   \<and> (DatabaseTypeName c = t \<and> ColumnType c = Some t
        \<and> (PgTypeMap t \<noteq> None \<or> (DomainTypeMap cfg t = None \<and> TypeMap cfg t = None)) \<longrightarrow>
      resolvedType cfg gd c = spec_resolvedType cfg gd c t)"
proof (intro conjI impI)
  assume "PgTypeMap (DatabaseTypeName c) = Some b"
  then show "resolvedType cfg gd c =
        (case ColumnType c of
           None \<Rightarrow> b
         | Some t \<Rightarrow>
             (case DomainTypeMap cfg t of
                Some d \<Rightarrow> d
              | None \<Rightarrow> (case TypeMap cfg t of Some p \<Rightarrow> p | None \<Rightarrow> b)))"
    by (simp add: resolvedType_hooked typeHook_def)
next
  assume "PgTypeMap (DatabaseTypeName c) = None
        \<and> (ColumnType c = None
            \<or> (ColumnType c = Some t \<and> DomainTypeMap cfg t = None \<and> TypeMap cfg t = None))"
  then show "resolvedType cfg gd c = gd c" by (simp add: resolvedType_unhooked)
next
  assume a: "DatabaseTypeName c = t \<and> ColumnType c = Some t
        \<and> (PgTypeMap t \<noteq> None \<or> (DomainTypeMap cfg t = None \<and> TypeMap cfg t = None))"
  show "resolvedType cfg gd c = spec_resolvedType cfg gd c t"
  proof (cases "PgTypeMap t")
    case None
    with a show ?thesis by (simp add: resolvedType_unhooked spec_resolvedType_def)
  next
    case (Some b)
    with a show ?thesis
      by (simp add: resolvedType_hooked typeHook_def spec_resolvedType_def split: option.splits)
  qed
qed

lemma PgTypeMap_citext: "PgTypeMap ''citext'' = None"
  by (simp add: PgTypeMap_def PgTypeMap_entries_def)

lemma PgTypeMap_hstore: "PgTypeMap ''hstore'' = None"
  by (simp add: PgTypeMap_def PgTypeMap_entries_def)

lemma PgTypeMap_text: "PgTypeMap ''text'' = Some ''string''"
  by (simp add: PgTypeMap_def PgTypeMap_entries_def)

lemma PgTypeMap_jsonb: "PgTypeMap ''jsonb'' = Some ''json.RawMessage''"
  by (simp add: PgTypeMap_def PgTypeMap_entries_def)

text \<open>
  Claim C1 as stated fails for a column type that is a key of \<open>TypeMap\<close> but not of
  \<open>PgTypeMap\<close>: no hook is registered for \<open>citext\<close>, so the generator's inference
  decides and the \<open>TypeMap\<close> value is not used.
\<close>

theorem unhooked_type_counterexample:
  "resolvedType (mergeConfig (sampleConfig\<lparr> TypeMap := [''citext'' \<mapsto> ''models.CIText''] \<rparr>))
      (\<lambda>c. ''string'') \<lparr> DatabaseTypeName = ''citext'', ColumnType = Some ''citext'' \<rparr> = ''string''
   \<and> spec_resolvedType (mergeConfig (sampleConfig\<lparr> TypeMap := [''citext'' \<mapsto> ''models.CIText''] \<rparr>))
      (\<lambda>c. ''string'') \<lparr> DatabaseTypeName = ''citext'', ColumnType = Some ''citext'' \<rparr> ''citext''
       = ''models.CIText''
   \<and> TypeMap (mergeConfig (sampleConfig\<lparr> TypeMap := [''citext'' \<mapsto> ''models.CIText''] \<rparr>)) ''citext''
       = Some ''models.CIText''"
  by (simp add: resolvedType_unhooked PgTypeMap_citext spec_resolvedType_def mergeConfig_def
        mergeDefaults_apply sampleConfig_def conversionConfig_DomainTypeMap_def)


lemma emailConfig_maps:
  "DomainTypeMap emailConfig ''email_address'' = Some ''models.Email''"
  "TypeMap emailConfig ''email_address'' = Some ''string''"
  "DomainTypeMap emailConfig ''hstore'' = None"
  "TypeMap emailConfig ''hstore'' = None"
  "DomainTypeMap emailConfig ''jsonb'' = None"
  "TypeMap emailConfig ''jsonb'' = Some ''datatypes.JSONMap''"
  by (simp_all add: emailConfig_def mergeConfig_def mergeDefaults_apply sampleConfig_def
        conversionConfig_DomainTypeMap_def conversionConfig_TypeMap_def)

text \<open>
  Witness for C1: a domain over \<open>text\<close>, a type unknown to every layer, and \<open>jsonb\<close>,
  which the merged \<open>TypeMap\<close> overrides.
\<close>

theorem resolvedType_precedence_witness:
  "PgTypeMap (DatabaseTypeName \<lparr> DatabaseTypeName = ''text'', ColumnType = Some ''email_address'' \<rparr>)
     = Some ''string''
   \<and> resolvedType emailConfig (\<lambda>c. ''string'')
        \<lparr> DatabaseTypeName = ''text'', ColumnType = Some ''email_address'' \<rparr> = ''models.Email''
   \<and> PgTypeMap (DatabaseTypeName \<lparr> DatabaseTypeName = ''hstore'', ColumnType = Some ''hstore'' \<rparr>)
     = None
   \<and> DomainTypeMap emailConfig ''hstore'' = None \<and> TypeMap emailConfig ''hstore'' = None
   \<and> resolvedType emailConfig (\<lambda>c. ''interface{}'')
        \<lparr> DatabaseTypeName = ''hstore'', ColumnType = Some ''hstore'' \<rparr> = ''interface{}''
   \<and> PgTypeMap ''jsonb'' \<noteq> None
   \<and> resolvedType emailConfig (\<lambda>c. ''string'')
        \<lparr> DatabaseTypeName = ''jsonb'', ColumnType = Some ''jsonb'' \<rparr>
      = spec_resolvedType emailConfig (\<lambda>c. ''string'')
        \<lparr> DatabaseTypeName = ''jsonb'', ColumnType = Some ''jsonb'' \<rparr> ''jsonb''
   \<and> spec_resolvedType emailConfig (\<lambda>c. ''string'')
        \<lparr> DatabaseTypeName = ''jsonb'', ColumnType = Some ''jsonb'' \<rparr> ''jsonb''
      = ''datatypes.JSONMap''"
  using
    resolvedType_precedence [of "\<lparr> DatabaseTypeName = ''text'', ColumnType = Some ''email_address'' \<rparr>"
      "''string''" emailConfig "\<lambda>c. ''string''" "''email_address''"]
    resolvedType_precedence [of "\<lparr> DatabaseTypeName = ''hstore'', ColumnType = Some ''hstore'' \<rparr>"
      "''string''" emailConfig "\<lambda>c. ''interface{}''" "''hstore''"]
    resolvedType_precedence [of "\<lparr> DatabaseTypeName = ''jsonb'', ColumnType = Some ''jsonb'' \<rparr>"
      "''json.RawMessage''" emailConfig "\<lambda>c. ''string''" "''jsonb''"]
  by (simp add: PgTypeMap_text PgTypeMap_hstore PgTypeMap_jsonb emailConfig_maps
        spec_resolvedType_def)

section \<open>Tag overrides\<close>

lemma overrideJsonTag_cases:
  "jsonTagOverrides (ColumnName f) = Some v \<Longrightarrow>
     overrideJsonTag jsonTagOverrides f = f\<lparr> Tag := (Tag f)(''json'' \<mapsto> v) \<rparr>"
  "jsonTagOverrides (ColumnName f) = None \<Longrightarrow> jsonTagOverrides (Name f) = Some v \<Longrightarrow>
     overrideJsonTag jsonTagOverrides f = f\<lparr> Tag := (Tag f)(''json'' \<mapsto> v) \<rparr>"
  "jsonTagOverrides (ColumnName f) = None \<Longrightarrow> jsonTagOverrides (Name f) = None \<Longrightarrow>
     overrideJsonTag jsonTagOverrides f = f"
  by (simp_all add: overrideJsonTag_def)

lemma overrideJsonTag_keeps:
  "Name (overrideJsonTag ov f) = Name f" "Type (overrideJsonTag ov f) = Type f"
  "ColumnName (overrideJsonTag ov f) = ColumnName f" "GORMTag (overrideJsonTag ov f) = GORMTag f"
  "Relation (overrideJsonTag ov f) = Relation f"
  "k \<noteq> ''json'' \<Longrightarrow> Tag (overrideJsonTag ov f) k = Tag f k"
  by (simp_all add: overrideJsonTag_def split: option.splits)

lemma applyJsonTagOverrides_Some:
  "JsonTagOverridesByTable cfg t = Some ov \<Longrightarrow>
     Fields (applyJsonTagOverrides cfg t m) = map (overrideJsonTag ov) (Fields m)
     \<and> ModelStructName (applyJsonTagOverrides cfg t m) = ModelStructName m
     \<and> TableName (applyJsonTagOverrides cfg t m) = TableName m
     \<and> FileName (applyJsonTagOverrides cfg t m) = FileName m"
  by (simp add: applyJsonTagOverrides_def)

lemma applyJsonTagOverrides_nth:
  assumes "JsonTagOverridesByTable cfg t = Some ov" and "i < length (Fields m)"
  shows "length (Fields (applyJsonTagOverrides cfg t m)) = length (Fields m)
    \<and> (\<forall>v. ov (ColumnName (Fields m ! i)) = Some v \<longrightarrow>
          Tag (Fields (applyJsonTagOverrides cfg t m) ! i) ''json'' = Some v)
    \<and> (\<forall>v. ov (ColumnName (Fields m ! i)) = None \<and> ov (Name (Fields m ! i)) = Some v \<longrightarrow>
          Tag (Fields (applyJsonTagOverrides cfg t m) ! i) ''json'' = Some v)
    \<and> (ov (ColumnName (Fields m ! i)) = None \<and> ov (Name (Fields m ! i)) = None \<longrightarrow>
          Fields (applyJsonTagOverrides cfg t m) ! i = Fields m ! i)
    \<and> Name (Fields (applyJsonTagOverrides cfg t m) ! i) = Name (Fields m ! i)
    \<and> ColumnName (Fields (applyJsonTagOverrides cfg t m) ! i) = ColumnName (Fields m ! i)
    \<and> Type (Fields (applyJsonTagOverrides cfg t m) ! i) = Type (Fields m ! i)
    \<and> GORMTag (Fields (applyJsonTagOverrides cfg t m) ! i) = GORMTag (Fields m ! i)
    \<and> Relation (Fields (applyJsonTagOverrides cfg t m) ! i) = Relation (Fields m ! i)
    \<and> (\<forall>k. k \<noteq> ''json'' \<longrightarrow>
          Tag (Fields (applyJsonTagOverrides cfg t m) ! i) k = Tag (Fields m ! i) k)"
proof -
  have fs: "Fields (applyJsonTagOverrides cfg t m) = map (overrideJsonTag ov) (Fields m)"
    using assms(1) by (simp add: applyJsonTagOverrides_Some)
  have nth: "Fields (applyJsonTagOverrides cfg t m) ! i = overrideJsonTag ov (Fields m ! i)"
    using assms(2) by (simp add: fs)
  show ?thesis
    unfolding nth by (simp add: fs overrideJsonTag_keeps overrideJsonTag_cases)
qed

lemma tables_without_overrides:
  "JsonTagOverridesByTable cfg t = None \<Longrightarrow> applyJsonTagOverrides cfg t m = m"
  by (simp add: applyJsonTagOverrides_def)


lemma tablesLoop_stores:
  "GenerateModel x (world run) t = Some model \<Longrightarrow>
     modelsMap (snd (tablesLoop x cfg [t] run)) t =
       Some (applyJsonTagOverrides cfg t (addExtraFields x cfg t model))"
  by simp

lemma viewsLoop_stores:
  "fst (createTempView x (world run) v) \<Longrightarrow>
   GenerateModelAs x (snd (createTempView x (world run) v)) (v @ ''_temp'') (SchemaName x v)
     = Some model \<Longrightarrow>
     modelsMap (snd (viewsLoop x cfg [v] run)) v =
       Some (applyJsonTagOverrides cfg v
              ((addExtraFields x cfg v model)\<lparr> FileName := v, TableName := v \<rparr>))"
  by (simp add: viewModel_def)

lemma fold_append_fields:
  "fold (\<lambda>ef model. model\<lparr> Fields := Fields model @ [g ef] \<rparr>) efs m
     = m\<lparr> Fields := Fields m @ map g efs \<rparr>"
  by (induction efs arbitrary: m) simp_all

lemma addExtraFields_Fields:
  "Fields (addExtraFields x cfg t m) =
     Fields m @ map (\<lambda>ef. genRelationField (toLowerCamel x) ef (FieldNew '''' '''' Map.empty))
                  (case ExtraFields cfg t of None \<Rightarrow> [] | Some efs \<Rightarrow> efs)"
  by (simp add: addExtraFields_def fold_append_fields split: option.splits)

lemma tablesLoop_other:
  "t \<notin> set ts \<Longrightarrow> modelsMap (snd (tablesLoop x cfg ts run)) t = modelsMap run t"
  by (induction ts arbitrary: run) (auto split: option.splits)

lemma tablesLoop_stored:
  assumes "fst (tablesLoop x cfg ts run) = Completed" and "t \<in> set ts"
  shows "\<exists>w' model. GenerateModel x w' t = Some model
           \<and> modelsMap (snd (tablesLoop x cfg ts run)) t
               = Some (applyJsonTagOverrides cfg t (addExtraFields x cfg t model))"
  using assms
proof (induction ts arbitrary: run)
  case Nil
  then show ?case by simp
next
  case (Cons tableName rest)
  from Cons.prems(1) obtain model where g: "GenerateModel x (world run) tableName = Some model"
    by (auto split: option.splits)
  define run' where "run' = run\<lparr> world := reflected tableName (world run),
                  modelsMap := (modelsMap run)
                    (tableName \<mapsto> applyJsonTagOverrides cfg tableName
                                    (addExtraFields x cfg tableName model)) \<rparr>"
  have step: "tablesLoop x cfg (tableName # rest) run = tablesLoop x cfg rest run'"
    by (simp add: g run'_def)
  show ?case
  proof (cases "t \<in> set rest")
    case True
    from Cons.prems(1) have "fst (tablesLoop x cfg rest run') = Completed" by (simp only: step)
    from Cons.IH [OF this True] show ?thesis by (simp only: step)
  next
    case False
    with Cons.prems(2) have t: "t = tableName" by simp
    have "modelsMap (snd (tablesLoop x cfg rest run')) t = modelsMap run' t"
      using False by (rule tablesLoop_other)
    also have "\<dots> = Some (applyJsonTagOverrides cfg t (addExtraFields x cfg t model))"
      by (simp add: run'_def t)
    finally have "modelsMap (snd (tablesLoop x cfg (tableName # rest) run)) t
        = Some (applyJsonTagOverrides cfg t (addExtraFields x cfg t model))"
      by (simp only: step)
    moreover from g have "GenerateModel x (world run) t = Some model" by (simp only: t)
    ultimately show ?thesis by blast
  qed
qed

lemma viewsLoop_other:
  "v \<notin> set vs \<Longrightarrow> modelsMap (snd (viewsLoop x cfg vs run)) v = modelsMap run v"
  by (induction vs arbitrary: run) (auto split: option.splits)

lemma viewsLoop_stored:
  assumes "fst (viewsLoop x cfg vs run) = Completed" and "v \<in> set vs"
  shows "\<exists>w' model. GenerateModelAs x w' (v @ ''_temp'') (SchemaName x v) = Some model
           \<and> modelsMap (snd (viewsLoop x cfg vs run)) v = Some (viewModel x cfg v model)"
  using assms
proof (induction vs arbitrary: run)
  case Nil
  then show ?case by simp
next
  case (Cons viewName rest)
  from Cons.prems(1) have ok: "fst (createTempView x (world run) viewName)"
    by (auto split: if_splits)
  with Cons.prems(1) obtain model where
    g: "GenerateModelAs x (snd (createTempView x (world run) viewName))
          (viewName @ ''_temp'') (SchemaName x viewName) = Some model"
    by (auto split: option.splits)
  define run' where "run' = run\<lparr> world := reflected (viewName @ ''_temp'')
                                (snd (createTempView x (world run) viewName)),
                     deferred := DropView (viewName @ ''_temp'') # deferred run,
                     modelsMap := (modelsMap run)(viewName \<mapsto> viewModel x cfg viewName model) \<rparr>"
  have step: "viewsLoop x cfg (viewName # rest) run = viewsLoop x cfg rest run'"
    by (simp add: ok g run'_def)
  show ?case
  proof (cases "v \<in> set rest")
    case True
    from Cons.prems(1) have "fst (viewsLoop x cfg rest run') = Completed" by (simp only: step)
    from Cons.IH [OF this True] show ?thesis by (simp only: step)
  next
    case False
    with Cons.prems(2) have v: "v = viewName" by simp
    have "modelsMap (snd (viewsLoop x cfg rest run')) v = modelsMap run' v"
      using False by (rule viewsLoop_other)
    also have "\<dots> = Some (viewModel x cfg v model)"
      by (simp add: run'_def v)
    finally have "modelsMap (snd (viewsLoop x cfg (viewName # rest) run)) v
        = Some (viewModel x cfg v model)"
      by (simp only: step)
    moreover from g have "GenerateModelAs x (snd (createTempView x (world run) viewName))
          (v @ ''_temp'') (SchemaName x v) = Some model" by (simp only: v)
    ultimately show ?thesis by blast
  qed
qed

lemma collectModels_Completed:
  assumes "fst (collectModels x cfg w) = Completed"
    and "tableNames x cfg = Some ts" and "materializedViewNames x cfg = Some vs"
  shows "fst (tablesLoop x cfg ts \<lparr> world = w, deferred = [], modelsMap = Map.empty \<rparr>) = Completed"
    and "collectModels x cfg w =
           viewsLoop x cfg vs (snd (tablesLoop x cfg ts
             \<lparr> world = w, deferred = [], modelsMap = Map.empty \<rparr>))"
  using assms by (auto simp: collectModels_def Let_def split: if_splits)

lemma collectModels_stored:
  assumes "fst (collectModels x cfg w) = Completed"
    and "tableNames x cfg = Some ts" and "materializedViewNames x cfg = Some vs"
    and "name \<in> set ts \<union> set vs"
  shows "\<exists>model base.
      modelsMap (snd (collectModels x cfg w)) name = Some (applyJsonTagOverrides cfg name base)
    \<and> (if name \<in> set vs
        then (\<exists>w'. GenerateModelAs x w' (name @ ''_temp'') (SchemaName x name) = Some model)
        else (\<exists>w'. GenerateModel x w' name = Some model))
    \<and> Fields base = Fields (addExtraFields x cfg name model)"
proof -
  note c = collectModels_Completed [OF assms(1-3)]
  show ?thesis
  proof (cases "name \<in> set vs")
    case True
    from assms(1) have "fst (viewsLoop x cfg vs (snd (tablesLoop x cfg ts
             \<lparr> world = w, deferred = [], modelsMap = Map.empty \<rparr>))) = Completed"
      by (simp only: c(2))
    from viewsLoop_stored [OF this True] obtain w' model where
      g: "GenerateModelAs x w' (name @ ''_temp'') (SchemaName x name) = Some model"
      and m: "modelsMap (snd (collectModels x cfg w)) name = Some (viewModel x cfg name model)"
      by (auto simp only: c(2))
    show ?thesis
      using True g m
      by (intro exI [of _ model]
            exI [of _ "(addExtraFields x cfg name model)\<lparr> FileName := name, TableName := name \<rparr>"])
         (auto simp: viewModel_def)
  next
    case False
    with assms(4) have t: "name \<in> set ts" by simp
    from tablesLoop_stored [OF c(1) t] obtain w' model where
      g: "GenerateModel x w' name = Some model"
      and m: "modelsMap (snd (tablesLoop x cfg ts
                \<lparr> world = w, deferred = [], modelsMap = Map.empty \<rparr>)) name
              = Some (applyJsonTagOverrides cfg name (addExtraFields x cfg name model))"
      by blast
    have "modelsMap (snd (collectModels x cfg w)) name
            = Some (applyJsonTagOverrides cfg name (addExtraFields x cfg name model))"
      by (simp only: c(2) viewsLoop_other [OF False] m)
    then show ?thesis
      using False g
      by (intro exI [of _ model] exI [of _ "addExtraFields x cfg name model"]) auto
  qed
qed

text \<open>
  Claim C4. When model collection completes and the table or view \<open>name\<close> has an
  override map, the model that \<open>modelsMap\<close> holds for \<open>name\<close> has the fields of the
  generated model (reflected by \<open>GenerateModel\<close> for a table, by \<open>GenerateModelAs\<close> from
  the temporary view for a view) followed by the synthesized relation fields, with these
  tags: a field whose column name is a key of the map has that value as its \<open>json\<close> tag;
  a field whose column name is no key but whose field name is one has the value under the
  field name; a field with neither key is as it was. Everything but the \<open>json\<close> tag is
  as generated.
\<close>

theorem jsonTagOverrides_applied:
  assumes "fst (collectModels x cfg w) = Completed"
    and "tableNames x cfg = Some ts" and "materializedViewNames x cfg = Some vs"
    and "name \<in> set ts \<union> set vs"
    and "JsonTagOverridesByTable cfg name = Some ov"
  shows "\<exists>model fs M.
      modelsMap (snd (collectModels x cfg w)) name = Some M
    \<and> (if name \<in> set vs
        then (\<exists>w'. GenerateModelAs x w' (name @ ''_temp'') (SchemaName x name) = Some model)
        else (\<exists>w'. GenerateModel x w' name = Some model))
    \<and> fs = Fields model
             @ map (\<lambda>ef. genRelationField (toLowerCamel x) ef (FieldNew '''' '''' Map.empty))
                 (case ExtraFields cfg name of None \<Rightarrow> [] | Some efs \<Rightarrow> efs)
    \<and> length (Fields M) = length fs
    \<and> (\<forall>i<length fs.
          (\<forall>v. ov (ColumnName (fs ! i)) = Some v \<longrightarrow> Tag (Fields M ! i) ''json'' = Some v)
        \<and> (\<forall>v. ov (ColumnName (fs ! i)) = None \<and> ov (Name (fs ! i)) = Some v \<longrightarrow>
               Tag (Fields M ! i) ''json'' = Some v)
        \<and> (ov (ColumnName (fs ! i)) = None \<and> ov (Name (fs ! i)) = None \<longrightarrow>
               Fields M ! i = fs ! i)
        \<and> Name (Fields M ! i) = Name (fs ! i)
        \<and> ColumnName (Fields M ! i) = ColumnName (fs ! i)
        \<and> Type (Fields M ! i) = Type (fs ! i)
        \<and> GORMTag (Fields M ! i) = GORMTag (fs ! i)
        \<and> Relation (Fields M ! i) = Relation (fs ! i)
        \<and> (\<forall>k. k \<noteq> ''json'' \<longrightarrow> Tag (Fields M ! i) k = Tag (fs ! i) k))"
proof -
  from collectModels_stored [OF assms(1-4)] obtain model base where
    m: "modelsMap (snd (collectModels x cfg w)) name = Some (applyJsonTagOverrides cfg name base)"
    and g: "if name \<in> set vs
        then (\<exists>w'. GenerateModelAs x w' (name @ ''_temp'') (SchemaName x name) = Some model)
        else (\<exists>w'. GenerateModel x w' name = Some model)"
    and b: "Fields base = Fields (addExtraFields x cfg name model)"
    by blast
  have fs: "Fields base = Fields model
             @ map (\<lambda>ef. genRelationField (toLowerCamel x) ef (FieldNew '''' '''' Map.empty))
                 (case ExtraFields cfg name of None \<Rightarrow> [] | Some efs \<Rightarrow> efs)"
    by (simp only: b addExtraFields_Fields)
  have len: "length (Fields (applyJsonTagOverrides cfg name base)) = length (Fields base)"
    by (simp add: applyJsonTagOverrides_Some [OF assms(5)])
  have each: "\<forall>i<length (Fields base).
          (\<forall>v. ov (ColumnName (Fields base ! i)) = Some v \<longrightarrow>
               Tag (Fields (applyJsonTagOverrides cfg name base) ! i) ''json'' = Some v)
        \<and> (\<forall>v. ov (ColumnName (Fields base ! i)) = None \<and> ov (Name (Fields base ! i)) = Some v \<longrightarrow>
               Tag (Fields (applyJsonTagOverrides cfg name base) ! i) ''json'' = Some v)
        \<and> (ov (ColumnName (Fields base ! i)) = None \<and> ov (Name (Fields base ! i)) = None \<longrightarrow>
               Fields (applyJsonTagOverrides cfg name base) ! i = Fields base ! i)
        \<and> Name (Fields (applyJsonTagOverrides cfg name base) ! i) = Name (Fields base ! i)
        \<and> ColumnName (Fields (applyJsonTagOverrides cfg name base) ! i)
            = ColumnName (Fields base ! i)
        \<and> Type (Fields (applyJsonTagOverrides cfg name base) ! i) = Type (Fields base ! i)
        \<and> GORMTag (Fields (applyJsonTagOverrides cfg name base) ! i) = GORMTag (Fields base ! i)
        \<and> Relation (Fields (applyJsonTagOverrides cfg name base) ! i)
            = Relation (Fields base ! i)
        \<and> (\<forall>k. k \<noteq> ''json'' \<longrightarrow>
               Tag (Fields (applyJsonTagOverrides cfg name base) ! i) k
                 = Tag (Fields base ! i) k)"
  proof (intro allI impI)
    fix i assume "i < length (Fields base)"
    from conjunct2 [OF applyJsonTagOverrides_nth [OF assms(5) this]]
    show "(\<forall>v. ov (ColumnName (Fields base ! i)) = Some v \<longrightarrow>
               Tag (Fields (applyJsonTagOverrides cfg name base) ! i) ''json'' = Some v)
        \<and> (\<forall>v. ov (ColumnName (Fields base ! i)) = None \<and> ov (Name (Fields base ! i)) = Some v \<longrightarrow>
               Tag (Fields (applyJsonTagOverrides cfg name base) ! i) ''json'' = Some v)
        \<and> (ov (ColumnName (Fields base ! i)) = None \<and> ov (Name (Fields base ! i)) = None \<longrightarrow>
               Fields (applyJsonTagOverrides cfg name base) ! i = Fields base ! i)
        \<and> Name (Fields (applyJsonTagOverrides cfg name base) ! i) = Name (Fields base ! i)
        \<and> ColumnName (Fields (applyJsonTagOverrides cfg name base) ! i)
            = ColumnName (Fields base ! i)
        \<and> Type (Fields (applyJsonTagOverrides cfg name base) ! i) = Type (Fields base ! i)
        \<and> GORMTag (Fields (applyJsonTagOverrides cfg name base) ! i) = GORMTag (Fields base ! i)
        \<and> Relation (Fields (applyJsonTagOverrides cfg name base) ! i)
            = Relation (Fields base ! i)
        \<and> (\<forall>k. k \<noteq> ''json'' \<longrightarrow>
               Tag (Fields (applyJsonTagOverrides cfg name base) ! i) k
                 = Tag (Fields base ! i) k)" .
  qed
  show ?thesis
    by (rule exI [of _ model], rule exI [of _ "Fields base"],
        rule exI [of _ "applyJsonTagOverrides cfg name base"])
       (intro conjI m g fs len each)
qed

lemma tConfig_fields:
  "Tables tConfig = Some [''t'']" "MaterializedViews tConfig = Some []"
  "ExtraFields tConfig = Map.empty" "JsonTagOverridesByTable tConfig ''t'' = Some tOverrides"
  by (simp_all add: tConfig_def overrideConfig_def sampleConfig_def)

lemma tExternals_fields:
  "GenerateModel tExternals = (\<lambda>w name. Some tModel)"
  "toLowerCamel tExternals = (\<lambda>s. s)"
  by (simp_all add: tExternals_def plainExternals_def)

lemma t_run:
  "fst (collectModels tExternals tConfig emptyWorld) = Completed"
  "tableNames tExternals tConfig = Some [''t'']"
  "materializedViewNames tExternals tConfig = Some []"
  by (simp_all add: collectModels_def tableNames_def materializedViewNames_def Let_def
        tConfig_fields tExternals_fields)

lemma tModel_columns:
  "Fields tModel = [column ''ColX'' ''col_x'' ''string'' ''colX'',
                    column ''Notes'' ''notes'' ''string'' ''notes'',
                    column ''ID'' ''id'' ''int64'' ''id'']"
  by (simp add: tModel_def)

text \<open>
  Witness for C4: the run over the table \<open>t\<close>, whose model has a column-name match, a
  field-name match and a field without a match.
\<close>

theorem jsonTagOverrides_applied_witness:
  "fst (collectModels tExternals tConfig emptyWorld) = Completed
   \<and> tableNames tExternals tConfig = Some [''t'']
   \<and> materializedViewNames tExternals tConfig = Some []
   \<and> ''t'' \<in> set [''t''] \<union> set []
   \<and> JsonTagOverridesByTable tConfig ''t'' = Some tOverrides
   \<and> (\<exists>M. modelsMap (snd (collectModels tExternals tConfig emptyWorld)) ''t'' = Some M
          \<and> length (Fields M) = 3
          \<and> Tag (Fields M ! 0) ''json'' = Some ''-''
          \<and> Tag (Fields M ! 1) ''json'' = Some ''memo''
          \<and> Fields M ! 2 = column ''ID'' ''id'' ''int64'' ''id'')"
proof -
  have mem: "''t'' \<in> set [''t''] \<union> set ([] :: string list)" by simp
  from jsonTagOverrides_applied [OF t_run mem tConfig_fields(4)]
  obtain model fs M where
    m: "modelsMap (snd (collectModels tExternals tConfig emptyWorld)) ''t'' = Some M"
    and g: "\<exists>w'. GenerateModel tExternals w' ''t'' = Some model"
    and fs: "fs = Fields model
             @ map (\<lambda>ef. genRelationField (toLowerCamel tExternals) ef (FieldNew '''' '''' Map.empty))
                 (case ExtraFields tConfig ''t'' of None \<Rightarrow> [] | Some efs \<Rightarrow> efs)"
    and len: "length (Fields M) = length fs"
    and each: "\<forall>i<length fs.
          (\<forall>v. tOverrides (ColumnName (fs ! i)) = Some v \<longrightarrow> Tag (Fields M ! i) ''json'' = Some v)
        \<and> (\<forall>v. tOverrides (ColumnName (fs ! i)) = None \<and> tOverrides (Name (fs ! i)) = Some v \<longrightarrow>
               Tag (Fields M ! i) ''json'' = Some v)
        \<and> (tOverrides (ColumnName (fs ! i)) = None \<and> tOverrides (Name (fs ! i)) = None \<longrightarrow>
               Fields M ! i = fs ! i)
        \<and> Name (Fields M ! i) = Name (fs ! i)
        \<and> ColumnName (Fields M ! i) = ColumnName (fs ! i)
        \<and> Type (Fields M ! i) = Type (fs ! i)
        \<and> GORMTag (Fields M ! i) = GORMTag (fs ! i)
        \<and> Relation (Fields M ! i) = Relation (fs ! i)
        \<and> (\<forall>k. k \<noteq> ''json'' \<longrightarrow> Tag (Fields M ! i) k = Tag (fs ! i) k)"
    by auto
  from g have "model = tModel" by (simp add: tExternals_fields)
  with fs have fs': "fs = [column ''ColX'' ''col_x'' ''string'' ''colX'',
                    column ''Notes'' ''notes'' ''string'' ''notes'',
                    column ''ID'' ''id'' ''int64'' ''id'']"
    by (simp add: tModel_columns tConfig_fields)
  from len have l: "length (Fields M) = 3" by (simp add: fs')
  from each have "Tag (Fields M ! 0) ''json'' = Some ''-''"
    by (simp add: fs' column_def tOverrides_def)
  moreover from each have "Tag (Fields M ! 1) ''json'' = Some ''memo''"
    by (simp add: fs' column_def tOverrides_def)
  moreover from each have "Fields M ! 2 = column ''ID'' ''id'' ''int64'' ''id''"
    by (simp add: fs' column_def tOverrides_def)
  ultimately have "\<exists>M. modelsMap (snd (collectModels tExternals tConfig emptyWorld)) ''t'' = Some M
          \<and> length (Fields M) = 3
          \<and> Tag (Fields M ! 0) ''json'' = Some ''-''
          \<and> Tag (Fields M ! 1) ''json'' = Some ''memo''
          \<and> Fields M ! 2 = column ''ID'' ''id'' ''int64'' ''id''"
    using m l by blast
  with t_run mem tConfig_fields(4) show ?thesis by (intro conjI)
qed


section \<open>The run: evaluation rules for the concrete inputs\<close>

lemma plainExternals_fields:
  "toLowerCamel plainExternals = (\<lambda>s. s)"
  "SchemaName plainExternals = (\<lambda>s. s)"
  "GenerateModel plainExternals =
     (\<lambda>w t. Some \<lparr> ModelStructName = t, TableName = t, FileName = t, Fields = [] \<rparr>)"
  "GenerateModelAs plainExternals =
     (\<lambda>w src tgt. Some \<lparr> ModelStructName = tgt, TableName = src, FileName = src, Fields = [] \<rparr>)"
  "queryFails plainExternals = (\<lambda>w s. False)"
  "catalogTables plainExternals = None"
  "catalogMatViews plainExternals = None"
  "ApplyAndExecute plainExternals = (\<lambda>models. True)"
  "WriteDbInit plainExternals = (\<lambda>names. True)"
  by (simp_all add: plainExternals_def)

lemma abConfig_fields:
  "Tables abConfig = Some [''a'', ''b'']" "MaterializedViews abConfig = Some []"
  "ExtraFields abConfig = Map.empty" "JsonTagOverridesByTable abConfig = Map.empty"
  "GenerateDbInit abConfig = True"
  by (simp_all add: abConfig_def sampleConfig_def)

lemma mvConfig_fields:
  "Tables mvConfig = Some []" "MaterializedViews mvConfig = Some [''mv1'', ''mv2'']"
  "ExtraFields mvConfig = Map.empty" "JsonTagOverridesByTable mvConfig = Map.empty"
  "GenerateDbInit mvConfig = True"
  by (simp_all add: mvConfig_def sampleConfig_def)

lemmas run_eval = postgresToGorm_generate_def collectModels_def tableNames_def
  materializedViewNames_def createTempView_def sqldb_Query_def effect_def reflected_def
  viewModel_def addExtraFields_def applyJsonTagOverrides_def stop_def leave_def runDeferred_def
  handOver_def rangeValues_def rangeKeys_def generatorData_def emptyWorld_def Let_def
  List.map_filter_def

section \<open>The snapshot protocol: cleanup\<close>

text \<open>
  When nothing fails, both temporary views are created after their drop-if-exists and
  before their reflection, and the deferred drops remove them when the function returns.
\<close>

lemma temp_views_dropped_on_return:
  "ending (postgresToGorm_generate plainExternals mvConfig [''mv1'', ''mv2''] [''mv1'', ''mv2'']
      emptyWorld) = Completed
   \<and> views (finalWorld (postgresToGorm_generate plainExternals mvConfig [''mv1'', ''mv2'']
      [''mv1'', ''mv2''] emptyWorld)) = {}
   \<and> trace (finalWorld (postgresToGorm_generate plainExternals mvConfig [''mv1'', ''mv2'']
      [''mv1'', ''mv2''] emptyWorld)) =
       [Queried (DropViewIfExists ''mv1_temp'') True,
        Queried (CreateViewAs ''mv1_temp'' ''mv1'') True,
        Reflected ''mv1_temp'',
        Queried (DropViewIfExists ''mv2_temp'') True,
        Queried (CreateViewAs ''mv2_temp'' ''mv2'') True,
        Reflected ''mv2_temp'',
        Queried (DropView ''mv2_temp'') True,
        Queried (DropView ''mv1_temp'') True]"
  by (simp add: run_eval plainExternals_fields mvConfig_fields)

text \<open>
  Claim C5 at its failing input. With the views \<open>mv1\<close> and \<open>mv2\<close>, when the creation
  of \<open>mv2_temp\<close> fails the run ends in \<open>log.Fatal\<close>: the deferred drop of \<open>mv1_temp\<close>
  never runs and \<open>mv1_temp\<close> stays in the database. The same happens to both temporary
  views when writing the initialisation file fails.
\<close>

theorem leftover_temp_view:
  "ending (postgresToGorm_generate (plainExternals\<lparr> queryFails := secondCreateFails \<rparr>)
      mvConfig [] [] emptyWorld) = LogFatal CreateViewFailed
   \<and> views (finalWorld (postgresToGorm_generate (plainExternals\<lparr> queryFails := secondCreateFails \<rparr>)
      mvConfig [] [] emptyWorld)) = {''mv1_temp''}
   \<and> trace (finalWorld (postgresToGorm_generate (plainExternals\<lparr> queryFails := secondCreateFails \<rparr>)
      mvConfig [] [] emptyWorld)) =
       [Queried (DropViewIfExists ''mv1_temp'') True,
        Queried (CreateViewAs ''mv1_temp'' ''mv1'') True,
        Reflected ''mv1_temp'',
        Queried (DropViewIfExists ''mv2_temp'') True,
        Queried (CreateViewAs ''mv2_temp'' ''mv2'') False]
   \<and> ending (postgresToGorm_generate (plainExternals\<lparr> WriteDbInit := (\<lambda>names. False) \<rparr>)
      mvConfig [''mv1'', ''mv2''] [''mv1'', ''mv2''] emptyWorld) = LogFatal DbInitFailed
   \<and> views (finalWorld (postgresToGorm_generate (plainExternals\<lparr> WriteDbInit := (\<lambda>names. False) \<rparr>)
      mvConfig [''mv1'', ''mv2''] [''mv1'', ''mv2''] emptyWorld)) = {''mv1_temp'', ''mv2_temp''}"
  by (simp add: run_eval plainExternals_fields mvConfig_fields secondCreateFails_def insert_commute)

section \<open>The snapshot protocol: which failures end the run\<close>

lemma createTempView_flag:
  "fst (createTempView x w v) =
     (\<not> queryFails x (snd (sqldb_Query x w (DropViewIfExists (v @ ''_temp''))))
          (CreateViewAs (v @ ''_temp'') v))"
  by (simp add: createTempView_def sqldb_Query_def Let_def)

lemma createTempView_trace:
  "trace (snd (createTempView x w v)) =
     trace w @ [Queried (DropViewIfExists (v @ ''_temp''))
                  (\<not> queryFails x w (DropViewIfExists (v @ ''_temp''))),
                Queried (CreateViewAs (v @ ''_temp'') v) (fst (createTempView x w v))]"
  by (simp add: createTempView_def sqldb_Query_def Let_def)

lemma viewsLoop_create_fails:
  "\<not> fst (createTempView x (world run) v) \<Longrightarrow>
     fst (viewsLoop x cfg (v # rest) run) = LogFatal CreateViewFailed"
  by simp

lemma viewsLoop_never_fatal:
  assumes "\<And>w t s. \<not> queryFails x w (CreateViewAs t s)"
  shows "fst (viewsLoop x cfg vs run) \<noteq> LogFatal f"
proof (induction vs arbitrary: run)
  case Nil
  then show ?case by simp
next
  case (Cons v vs)
  have ok: "fst (createTempView x (world run) v)"
    by (simp add: createTempView_flag assms)
  show ?case
  proof (cases "GenerateModelAs x (snd (createTempView x (world run) v))
                  (v @ ''_temp'') (SchemaName x v)")
    case None
    with ok show ?thesis by simp
  next
    case (Some model)
    with ok show ?thesis by (simp add: Cons.IH)
  qed
qed

lemma sqldb_Query_agree:
  assumes "\<And>w s. (\<forall>v. s \<noteq> DropView v) \<Longrightarrow> qf w s = queryFails x w s"
    and "\<forall>v. s \<noteq> DropView v"
  shows "sqldb_Query (x\<lparr> queryFails := qf \<rparr>) w s = sqldb_Query x w s"
  using assms by (simp add: sqldb_Query_def)

lemma createTempView_agree:
  assumes "\<And>w s. (\<forall>v. s \<noteq> DropView v) \<Longrightarrow> qf w s = queryFails x w s"
  shows "createTempView (x\<lparr> queryFails := qf \<rparr>) w v = createTempView x w v"
proof -
  have a: "sqldb_Query (x\<lparr> queryFails := qf \<rparr>) w (DropViewIfExists (v @ ''_temp''))
           = sqldb_Query x w (DropViewIfExists (v @ ''_temp''))"
    by (rule sqldb_Query_agree [OF assms]) simp_all
  have b: "\<And>w'. sqldb_Query (x\<lparr> queryFails := qf \<rparr>) w' (CreateViewAs (v @ ''_temp'') v)
           = sqldb_Query x w' (CreateViewAs (v @ ''_temp'') v)"
    by (rule sqldb_Query_agree [OF assms]) simp_all
  show ?thesis by (simp only: createTempView_def Let_def a b)
qed

lemma addExtraFields_agree:
  "addExtraFields (x\<lparr> queryFails := qf \<rparr>) cfg t m = addExtraFields x cfg t m"
  by (simp add: addExtraFields_def cong: option.case_cong)

lemma tablesLoop_agree:
  "tablesLoop (x\<lparr> queryFails := qf \<rparr>) cfg ts run = tablesLoop x cfg ts run"
  by (induction ts arbitrary: run) (simp_all add: addExtraFields_agree split: option.splits)

lemma viewsLoop_agree:
  assumes "\<And>w s. (\<forall>v. s \<noteq> DropView v) \<Longrightarrow> qf w s = queryFails x w s"
  shows "viewsLoop (x\<lparr> queryFails := qf \<rparr>) cfg vs run = viewsLoop x cfg vs run"
proof (induction vs arbitrary: run)
  case Nil
  then show ?case by simp
next
  case (Cons v vs)
  show ?case
    by (simp add: createTempView_agree [OF assms] viewModel_def addExtraFields_agree Cons.IH
          split: option.splits)
qed

lemma collectModels_agree:
  assumes "\<And>w s. (\<forall>v. s \<noteq> DropView v) \<Longrightarrow> qf w s = queryFails x w s"
  shows "collectModels (x\<lparr> queryFails := qf \<rparr>) cfg w = collectModels x cfg w"
  by (simp add: collectModels_def tableNames_def materializedViewNames_def tablesLoop_agree
        viewsLoop_agree [OF assms] Let_def cong: option.case_cong if_cong)

lemma ending_stop: "ending (stop x e run models names) = e"
  by (simp add: stop_def)

lemma ending_handOver_agree:
  "ending (handOver (x\<lparr> queryFails := qf \<rparr>) cfg o1 o2 run) = ending (handOver x cfg o1 o2 run)"
  by (simp add: handOver_def Let_def ending_stop)

lemma ending_agree:
  assumes "\<And>w s. (\<forall>v. s \<noteq> DropView v) \<Longrightarrow> qf w s = queryFails x w s"
  shows "ending (postgresToGorm_generate (x\<lparr> queryFails := qf \<rparr>) cfg o1 o2 w)
         = ending (postgresToGorm_generate x cfg o1 o2 w)"
  by (simp add: postgresToGorm_generate_def collectModels_agree [OF assms] ending_stop
        ending_handOver_agree)

text \<open>
  Claim C6. When the creation of a temporary view fails the views loop ends with
  \<open>log.Fatal\<close>, and a \<open>log.Fatal\<close> while the models are collected is the ending of the
  whole run, with the database left as it is at that moment. The success flag of the snapshot step is that of the creation alone,
  whatever the pre-emptive drop returned; with a database that never rejects a creation
  the views loop never ends in \<open>log.Fatal\<close>, however the drops fare. How the run ends
  does not depend on whether the deferred cleanup drops fail.
\<close>

theorem create_fatal_drops_swallowed:
  "(\<not> fst (createTempView x (world run) v) \<longrightarrow>
      fst (viewsLoop x cfg (v # rest) run) = LogFatal CreateViewFailed)
   \<and> (fst (collectModels x cfg w0) = LogFatal f \<longrightarrow>
        ending (postgresToGorm_generate x cfg o1 o2 w0) = LogFatal f
        \<and> finalWorld (postgresToGorm_generate x cfg o1 o2 w0)
            = world (snd (collectModels x cfg w0)))
   \<and> fst (createTempView x w v) =
       (\<not> queryFails x (snd (sqldb_Query x w (DropViewIfExists (v @ ''_temp''))))
            (CreateViewAs (v @ ''_temp'') v))
   \<and> ((\<forall>w t s. \<not> queryFails x w (CreateViewAs t s)) \<longrightarrow>
        (\<forall>f. fst (viewsLoop x cfg vs run) \<noteq> LogFatal f))
   \<and> ((\<forall>w s. (\<forall>v. s \<noteq> DropView v) \<longrightarrow> qf w s = queryFails x w s) \<longrightarrow>
        ending (postgresToGorm_generate (x\<lparr> queryFails := qf \<rparr>) cfg o1 o2 w0)
        = ending (postgresToGorm_generate x cfg o1 o2 w0))"
proof (intro conjI impI allI)
  assume "\<not> fst (createTempView x (world run) v)"
  then show "fst (viewsLoop x cfg (v # rest) run) = LogFatal CreateViewFailed"
    by (rule viewsLoop_create_fails)
next
  assume "fst (collectModels x cfg w0) = LogFatal f"
  then show "ending (postgresToGorm_generate x cfg o1 o2 w0) = LogFatal f"
    and "finalWorld (postgresToGorm_generate x cfg o1 o2 w0) = world (snd (collectModels x cfg w0))"
    by (simp_all add: postgresToGorm_generate_def stop_def leave_def)
next
  show "fst (createTempView x w v) =
       (\<not> queryFails x (snd (sqldb_Query x w (DropViewIfExists (v @ ''_temp''))))
            (CreateViewAs (v @ ''_temp'') v))"
    by (rule createTempView_flag)
next
  fix f
  assume "\<forall>w t s. \<not> queryFails x w (CreateViewAs t s)"
  then show "fst (viewsLoop x cfg vs run) \<noteq> LogFatal f"
    by (intro viewsLoop_never_fatal) simp
next
  assume "\<forall>w s. (\<forall>v. s \<noteq> DropView v) \<longrightarrow> qf w s = queryFails x w s"
  then show "ending (postgresToGorm_generate (x\<lparr> queryFails := qf \<rparr>) cfg o1 o2 w0)
        = ending (postgresToGorm_generate x cfg o1 o2 w0)"
    by (intro ending_agree) simp
qed

lemma createsFail_first: "\<not> fst (createTempView (plainExternals\<lparr> queryFails := createsFail \<rparr>)
      (world startRun) ''mv1'')"
  by (simp add: createTempView_flag createsFail_def)

lemma dropsFail_creates: "\<forall>w t s. \<not> queryFails (plainExternals\<lparr> queryFails := dropsFail \<rparr>) w
      (CreateViewAs t s)"
  by (simp add: dropsFail_def)

lemma cleanupFails_others:
  "\<forall>w s. (\<forall>v. s \<noteq> DropView v) \<longrightarrow> cleanupFails w s = queryFails plainExternals w s"
  by (auto simp: cleanupFails_def plainExternals_fields split: Stmt.splits)

lemma createsFail_collect:
  "fst (collectModels (plainExternals\<lparr> queryFails := createsFail \<rparr>) mvConfig emptyWorld)
     = LogFatal CreateViewFailed"
  by (simp add: run_eval plainExternals_fields mvConfig_fields createsFail_def)

lemma plain_run_completes:
  "ending (postgresToGorm_generate plainExternals mvConfig [''mv1'', ''mv2''] [''mv1'', ''mv2'']
      emptyWorld) = Completed"
  by (simp add: run_eval plainExternals_fields mvConfig_fields)

text \<open>
  Witness for C6: a database that rejects every creation, one that rejects every drop, and
  one that rejects only the cleanup drops.
\<close>

theorem create_fatal_drops_swallowed_witness:
  "\<not> fst (createTempView (plainExternals\<lparr> queryFails := createsFail \<rparr>) (world startRun) ''mv1'')
   \<and> fst (viewsLoop (plainExternals\<lparr> queryFails := createsFail \<rparr>) mvConfig [''mv1'', ''mv2'']
          startRun) = LogFatal CreateViewFailed
   \<and> fst (collectModels (plainExternals\<lparr> queryFails := createsFail \<rparr>) mvConfig emptyWorld)
       = LogFatal CreateViewFailed
   \<and> ending (postgresToGorm_generate (plainExternals\<lparr> queryFails := createsFail \<rparr>) mvConfig
          [] [] emptyWorld) = LogFatal CreateViewFailed
   \<and> (\<forall>w t s. \<not> queryFails (plainExternals\<lparr> queryFails := dropsFail \<rparr>) w (CreateViewAs t s))
   \<and> (\<forall>f. fst (viewsLoop (plainExternals\<lparr> queryFails := dropsFail \<rparr>) mvConfig
          [''mv1'', ''mv2''] startRun) \<noteq> LogFatal f)
   \<and> ending (postgresToGorm_generate (plainExternals\<lparr> queryFails := cleanupFails \<rparr>) mvConfig
          [''mv1'', ''mv2''] [''mv1'', ''mv2''] emptyWorld) = Completed"
proof -
  note T = create_fatal_drops_swallowed
  have 1: "fst (viewsLoop (plainExternals\<lparr> queryFails := createsFail \<rparr>) mvConfig [''mv1'', ''mv2'']
          startRun) = LogFatal CreateViewFailed"
    by (rule mp [OF conjunct1 [OF T] createsFail_first])
  have e: "ending (postgresToGorm_generate (plainExternals\<lparr> queryFails := createsFail \<rparr>)
          mvConfig [] [] emptyWorld) = LogFatal CreateViewFailed"
    by (rule conjunct1 [OF mp [OF conjunct1 [OF conjunct2 [OF T]] createsFail_collect]])
  have 2: "\<forall>f. fst (viewsLoop (plainExternals\<lparr> queryFails := dropsFail \<rparr>) mvConfig
          [''mv1'', ''mv2''] startRun) \<noteq> LogFatal f"
    by (rule mp [OF conjunct1 [OF conjunct2 [OF conjunct2 [OF conjunct2 [OF T]]]]
          dropsFail_creates])
  have "ending (postgresToGorm_generate (plainExternals\<lparr> queryFails := cleanupFails \<rparr>) mvConfig
          [''mv1'', ''mv2''] [''mv1'', ''mv2''] emptyWorld)
        = ending (postgresToGorm_generate plainExternals mvConfig
          [''mv1'', ''mv2''] [''mv1'', ''mv2''] emptyWorld)"
    by (rule mp [OF conjunct2 [OF conjunct2 [OF conjunct2 [OF conjunct2 [OF T]]]]
          cleanupFails_others])
  then have 3: "ending (postgresToGorm_generate (plainExternals\<lparr> queryFails := cleanupFails \<rparr>)
          mvConfig [''mv1'', ''mv2''] [''mv1'', ''mv2''] emptyWorld) = Completed"
    by (simp only: plain_run_completes)
  from createsFail_first 1 createsFail_collect e dropsFail_creates 2 3 show ?thesis
    by (intro conjI)
qed

section \<open>Map iteration order\<close>

lemma rangeValues_enumerates:
  assumes "enumerates order m"
  shows "rangeValues order m = map (\<lambda>k. the (m k)) order"
proof -
  from assms have "set order \<subseteq> dom m" by (simp add: enumerates_def)
  then show ?thesis
    unfolding rangeValues_def by (induction order) (auto simp: List.map_filter_simps)
qed

lemma enumerates_mset:
  assumes "enumerates o1 m" "enumerates o2 m"
  shows "mset o1 = mset o2"
  using assms by (simp add: enumerates_def set_eq_iff_mset_eq_distinct [symmetric])

lemma rangeValues_mset:
  assumes "enumerates o1 m" "enumerates o2 m"
  shows "mset (rangeValues o1 m) = mset (rangeValues o2 m)"
proof -
  have "mset (rangeValues o1 m) = image_mset (\<lambda>k. the (m k)) (mset o1)"
    by (simp add: rangeValues_enumerates [OF assms(1)])
  also have "\<dots> = image_mset (\<lambda>k. the (m k)) (mset o2)"
    by (simp only: enumerates_mset [OF assms])
  also have "\<dots> = mset (rangeValues o2 m)"
    by (simp add: rangeValues_enumerates [OF assms(2)])
  finally show ?thesis .
qed

lemma rangeValues_set:
  assumes "enumerates order m"
  shows "set (rangeValues order m) = ran m"
proof -
  from assms have d: "set order = dom m" by (simp add: enumerates_def)
  have "set (rangeValues order m) = (\<lambda>k. the (m k)) ` dom m"
    by (simp add: rangeValues_enumerates [OF assms] d)
  also have "\<dots> = ran m" by (force simp: ran_def dom_def image_def)
  finally show ?thesis .
qed

lemma handedModels_stop: "handedModels (stop x e run models names) = models"
  by (simp add: stop_def)

lemma handedModels_handOver:
  "handedModels (handOver x cfg o1 o2 run) = rangeValues o1 (modelsMap run)"
  by (simp add: handOver_def Let_def handedModels_stop)

lemma handedModels_generate:
  "handedModels (postgresToGorm_generate x cfg o1 o2 w) =
     (if fst (collectModels x cfg w) \<noteq> Completed then []
      else rangeValues o1 (modelsMap (snd (collectModels x cfg w))))"
  by (simp add: postgresToGorm_generate_def handedModels_stop handedModels_handOver)

lemma map_Some_rangeValues:
  assumes "enumerates order m"
  shows "map Some (rangeValues order m) = map m order"
proof -
  from assms have "set order \<subseteq> dom m" by (simp add: enumerates_def)
  then show ?thesis
    unfolding rangeValues_def by (induction order) (auto simp: List.map_filter_simps)
qed

lemma rangeValues_once:
  assumes "enumerates order m"
  shows "image_mset Some (mset (rangeValues order m)) = image_mset m (mset_set (dom m))"
proof -
  from assms have d: "distinct order" and s: "set order = dom m" by (simp_all add: enumerates_def)
  have "image_mset Some (mset (rangeValues order m)) = mset (map Some (rangeValues order m))"
    by simp
  also have "\<dots> = image_mset m (mset order)"
    by (simp add: map_Some_rangeValues [OF assms])
  also have "mset order = mset_set (set order)"
    using d by (simp add: mset_set_set)
  finally show ?thesis by (simp only: s)
qed

lemma rangeValues_length:
  assumes "enumerates order m"
  shows "length (rangeValues order m) = card (dom m)"
proof -
  from assms have d: "distinct order" and s: "set order = dom m" by (simp_all add: enumerates_def)
  have "length (rangeValues order m) = length (map Some (rangeValues order m))" by simp
  also have "\<dots> = length order" by (simp add: map_Some_rangeValues [OF assms])
  also have "\<dots> = card (dom m)" using d s by (simp add: distinct_card [symmetric])
  finally show ?thesis .
qed

lemma rangeKeys_enumerates:
  assumes "enumerates order m"
  shows "rangeKeys order m = order"
proof -
  from assms have "\<forall>k\<in>set order. m k \<noteq> None" by (auto simp: enumerates_def)
  then show ?thesis by (simp add: rangeKeys_def)
qed

lemma modelStructNames_generate:
  assumes "fst (collectModels x cfg w) = Completed"
    and "ApplyAndExecute x (handedModels (postgresToGorm_generate x cfg o1 d1 w))"
    and "GenerateDbInit cfg"
  shows "modelStructNames (postgresToGorm_generate x cfg o1 d1 w) =
           rangeKeys d1 (generatorData (handedModels (postgresToGorm_generate x cfg o1 d1 w)))"
proof -
  have h: "handedModels (postgresToGorm_generate x cfg o1 d1 w)
             = rangeValues o1 (modelsMap (snd (collectModels x cfg w)))"
    using assms(1) by (simp add: handedModels_generate)
  from assms(2) have ap: "ApplyAndExecute x (rangeValues o1 (modelsMap (snd (collectModels x cfg w))))"
    by (simp only: h)
  show ?thesis
    unfolding h using assms(1,3) ap
    by (simp add: postgresToGorm_generate_def handOver_def stop_def Let_def)
qed

text \<open>
  Claim C7, amended. Two runs against an unchanged schema and configuration collect the
  same models by name and hand the same models to the generator, whatever order the
  runtime enumerates the map in: the two lists handed over are equal as multisets. When
  collection completes, the list handed over is, name by name along the enumeration, the
  model stored under that name, so it holds one model for every name of the map and no
  other entry. The struct names collected for the initialisation file are the generator's
  names in the order of their enumeration.
\<close>

theorem same_models_any_order:
  assumes "enumerates o1 (modelsMap (snd (collectModels x cfg w)))"
    and "enumerates o2 (modelsMap (snd (collectModels x cfg w)))"
  shows "mset (handedModels (postgresToGorm_generate x cfg o1 d1 w))
           = mset (handedModels (postgresToGorm_generate x cfg o2 d2 w))
     \<and> (fst (collectModels x cfg w) = Completed \<longrightarrow>
          map Some (handedModels (postgresToGorm_generate x cfg o1 d1 w))
            = map (modelsMap (snd (collectModels x cfg w))) o1
        \<and> image_mset Some (mset (handedModels (postgresToGorm_generate x cfg o1 d1 w)))
            = image_mset (modelsMap (snd (collectModels x cfg w)))
                (mset_set (dom (modelsMap (snd (collectModels x cfg w)))))
        \<and> length (handedModels (postgresToGorm_generate x cfg o1 d1 w))
            = card (dom (modelsMap (snd (collectModels x cfg w))))
        \<and> set (handedModels (postgresToGorm_generate x cfg o1 d1 w))
            = ran (modelsMap (snd (collectModels x cfg w))))
     \<and> (fst (collectModels x cfg w) = Completed
          \<and> ApplyAndExecute x (handedModels (postgresToGorm_generate x cfg o1 d1 w))
          \<and> GenerateDbInit cfg
          \<and> enumerates d1 (generatorData (handedModels (postgresToGorm_generate x cfg o1 d1 w)))
          \<longrightarrow> modelStructNames (postgresToGorm_generate x cfg o1 d1 w) = d1)"
proof (intro conjI impI)
  show "mset (handedModels (postgresToGorm_generate x cfg o1 d1 w))
           = mset (handedModels (postgresToGorm_generate x cfg o2 d2 w))"
    by (simp add: handedModels_generate rangeValues_mset [OF assms])
next
  assume c: "fst (collectModels x cfg w) = Completed"
  then have h: "handedModels (postgresToGorm_generate x cfg o1 d1 w)
                  = rangeValues o1 (modelsMap (snd (collectModels x cfg w)))"
    by (simp add: handedModels_generate)
  show "map Some (handedModels (postgresToGorm_generate x cfg o1 d1 w))
            = map (modelsMap (snd (collectModels x cfg w))) o1"
    by (simp only: h map_Some_rangeValues [OF assms(1)])
  show "image_mset Some (mset (handedModels (postgresToGorm_generate x cfg o1 d1 w)))
            = image_mset (modelsMap (snd (collectModels x cfg w)))
                (mset_set (dom (modelsMap (snd (collectModels x cfg w)))))"
    by (simp only: h rangeValues_once [OF assms(1)])
  show "length (handedModels (postgresToGorm_generate x cfg o1 d1 w))
            = card (dom (modelsMap (snd (collectModels x cfg w))))"
    by (simp only: h rangeValues_length [OF assms(1)])
  show "set (handedModels (postgresToGorm_generate x cfg o1 d1 w))
            = ran (modelsMap (snd (collectModels x cfg w)))"
    by (simp only: h rangeValues_set [OF assms(1)])
next
  assume a: "fst (collectModels x cfg w) = Completed
          \<and> ApplyAndExecute x (handedModels (postgresToGorm_generate x cfg o1 d1 w))
          \<and> GenerateDbInit cfg
          \<and> enumerates d1 (generatorData (handedModels (postgresToGorm_generate x cfg o1 d1 w)))"
  then have "modelStructNames (postgresToGorm_generate x cfg o1 d1 w) =
           rangeKeys d1 (generatorData (handedModels (postgresToGorm_generate x cfg o1 d1 w)))"
    by (intro modelStructNames_generate) simp_all
  also have "\<dots> = d1" using a by (intro rangeKeys_enumerates) simp
  finally show "modelStructNames (postgresToGorm_generate x cfg o1 d1 w) = d1" .
qed

lemma ab_collect:
  "fst (collectModels plainExternals abConfig emptyWorld) = Completed"
  "modelsMap (snd (collectModels plainExternals abConfig emptyWorld)) =
     [''a'' \<mapsto> \<lparr> ModelStructName = ''a'', TableName = ''a'', FileName = ''a'', Fields = [] \<rparr>,
      ''b'' \<mapsto> \<lparr> ModelStructName = ''b'', TableName = ''b'', FileName = ''b'', Fields = [] \<rparr>]"
  by (simp_all add: run_eval plainExternals_fields abConfig_fields)

lemma ab_enumerations:
  "enumerates [''a'', ''b''] (modelsMap (snd (collectModels plainExternals abConfig emptyWorld)))"
  "enumerates [''b'', ''a''] (modelsMap (snd (collectModels plainExternals abConfig emptyWorld)))"
  by (auto simp: ab_collect enumerates_def)

lemma ab_handed:
  "handedModels (postgresToGorm_generate plainExternals abConfig [''b'', ''a''] [''b'', ''a'']
      emptyWorld) =
     [\<lparr> ModelStructName = ''b'', TableName = ''b'', FileName = ''b'', Fields = [] \<rparr>,
      \<lparr> ModelStructName = ''a'', TableName = ''a'', FileName = ''a'', Fields = [] \<rparr>]"
  by (simp add: handedModels_generate ab_collect rangeValues_def List.map_filter_def)

lemma ab_data:
  "enumerates [''b'', ''a''] (generatorData (handedModels (postgresToGorm_generate plainExternals
      abConfig [''b'', ''a''] [''b'', ''a''] emptyWorld)))"
  by (auto simp: ab_handed generatorData_def enumerates_def)

text \<open>Witness for C7: two tables, enumerated in both orders.\<close>

theorem same_models_any_order_witness:
  "enumerates [''b'', ''a''] (modelsMap (snd (collectModels plainExternals abConfig emptyWorld)))
   \<and> enumerates [''a'', ''b''] (modelsMap (snd (collectModels plainExternals abConfig emptyWorld)))
   \<and> fst (collectModels plainExternals abConfig emptyWorld) = Completed
   \<and> ApplyAndExecute plainExternals (handedModels (postgresToGorm_generate plainExternals
        abConfig [''b'', ''a''] [''b'', ''a''] emptyWorld))
   \<and> GenerateDbInit abConfig
   \<and> enumerates [''b'', ''a''] (generatorData (handedModels (postgresToGorm_generate plainExternals
        abConfig [''b'', ''a''] [''b'', ''a''] emptyWorld)))
   \<and> mset (handedModels (postgresToGorm_generate plainExternals abConfig [''b'', ''a'']
              [''b'', ''a''] emptyWorld))
      = mset (handedModels (postgresToGorm_generate plainExternals abConfig [''a'', ''b'']
              [''a'', ''b''] emptyWorld))
   \<and> map Some (handedModels (postgresToGorm_generate plainExternals abConfig [''b'', ''a'']
              [''b'', ''a''] emptyWorld))
      = map (modelsMap (snd (collectModels plainExternals abConfig emptyWorld))) [''b'', ''a'']
   \<and> length (handedModels (postgresToGorm_generate plainExternals abConfig [''b'', ''a'']
              [''b'', ''a''] emptyWorld))
      = card (dom (modelsMap (snd (collectModels plainExternals abConfig emptyWorld))))
   \<and> set (handedModels (postgresToGorm_generate plainExternals abConfig [''b'', ''a'']
              [''b'', ''a''] emptyWorld))
      = ran (modelsMap (snd (collectModels plainExternals abConfig emptyWorld)))
   \<and> modelStructNames (postgresToGorm_generate plainExternals abConfig [''b'', ''a'']
              [''b'', ''a''] emptyWorld) = [''b'', ''a'']"
proof -
  have ap: "ApplyAndExecute plainExternals (handedModels (postgresToGorm_generate plainExternals
        abConfig [''b'', ''a''] [''b'', ''a''] emptyWorld))"
    by (simp add: plainExternals_fields)
  have gi: "GenerateDbInit abConfig" by (simp add: abConfig_fields)
  note T = same_models_any_order [OF ab_enumerations(2) ab_enumerations(1),
      of "[''b'', ''a'']" "[''a'', ''b'']"]
  from T have 1: "mset (handedModels (postgresToGorm_generate plainExternals abConfig [''b'', ''a'']
              [''b'', ''a''] emptyWorld))
      = mset (handedModels (postgresToGorm_generate plainExternals abConfig [''a'', ''b'']
              [''a'', ''b''] emptyWorld))"
    by (rule conjunct1)
  note T2 = mp [OF conjunct1 [OF conjunct2 [OF T]] ab_collect(1)]
  have hyp: "fst (collectModels plainExternals abConfig emptyWorld) = Completed
          \<and> ApplyAndExecute plainExternals (handedModels (postgresToGorm_generate plainExternals
               abConfig [''b'', ''a''] [''b'', ''a''] emptyWorld))
          \<and> GenerateDbInit abConfig
          \<and> enumerates [''b'', ''a''] (generatorData (handedModels (postgresToGorm_generate
               plainExternals abConfig [''b'', ''a''] [''b'', ''a''] emptyWorld)))"
    using ab_collect(1) ap gi ab_data by (intro conjI)
  note T3 = mp [OF conjunct2 [OF conjunct2 [OF T]] hyp]
  from T2 have 2: "map Some (handedModels (postgresToGorm_generate plainExternals abConfig
              [''b'', ''a''] [''b'', ''a''] emptyWorld))
      = map (modelsMap (snd (collectModels plainExternals abConfig emptyWorld))) [''b'', ''a'']"
    and 3: "length (handedModels (postgresToGorm_generate plainExternals abConfig [''b'', ''a'']
              [''b'', ''a''] emptyWorld))
      = card (dom (modelsMap (snd (collectModels plainExternals abConfig emptyWorld))))"
    and 4: "set (handedModels (postgresToGorm_generate plainExternals abConfig [''b'', ''a'']
              [''b'', ''a''] emptyWorld))
      = ran (modelsMap (snd (collectModels plainExternals abConfig emptyWorld)))"
    by blast+
  from ab_enumerations(2) ab_enumerations(1) ab_collect(1) ap gi ab_data 1 2 3 4 T3
  show ?thesis by (intro conjI)
qed

text \<open>
  Claim C7 as stated fails: with two tables, two enumeration orders of the same map give
  different lists of models, and different lists of struct names for the initialisation
  file.
\<close>

theorem iteration_order_counterexample:
  "enumerates [''a'', ''b''] (modelsMap (snd (collectModels plainExternals abConfig emptyWorld)))
   \<and> enumerates [''b'', ''a''] (modelsMap (snd (collectModels plainExternals abConfig emptyWorld)))
   \<and> handedModels (postgresToGorm_generate plainExternals abConfig [''a'', ''b''] [''a'', ''b'']
        emptyWorld)
      \<noteq> handedModels (postgresToGorm_generate plainExternals abConfig [''b'', ''a''] [''b'', ''a'']
        emptyWorld)
   \<and> modelStructNames (postgresToGorm_generate plainExternals abConfig [''a'', ''b'']
        [''a'', ''b''] emptyWorld) = [''a'', ''b'']
   \<and> modelStructNames (postgresToGorm_generate plainExternals abConfig [''b'', ''a'']
        [''b'', ''a''] emptyWorld) = [''b'', ''a'']"
proof -
  have h: "handedModels (postgresToGorm_generate plainExternals abConfig [''a'', ''b''] [''a'', ''b'']
        emptyWorld)
      \<noteq> handedModels (postgresToGorm_generate plainExternals abConfig [''b'', ''a''] [''b'', ''a'']
        emptyWorld)"
    by (simp add: handedModels_generate ab_collect rangeValues_def List.map_filter_def)
  have n: "modelStructNames (postgresToGorm_generate plainExternals abConfig [''a'', ''b'']
        [''a'', ''b''] emptyWorld) = [''a'', ''b'']"
    "modelStructNames (postgresToGorm_generate plainExternals abConfig [''b'', ''a'']
        [''b'', ''a''] emptyWorld) = [''b'', ''a'']"
    by (simp_all add: run_eval plainExternals_fields abConfig_fields)
  from ab_enumerations h n show ?thesis by (intro conjI)
qed

end
